theory Spec2Isabelle
  imports Main
begin

section \<open>JavaScript strings and numbers\<close>

text \<open>
  The sources are TypeScript. A string is modelled as a \<^typ>\<open>string\<close> of code units below
  256 (Latin-1); strings with other code units are outside the embedding. White space is
  what \<^verbatim>\<open>trim\<close>, \<^verbatim>\<open>\s\<close> and \<^verbatim>\<open>parseInt\<close> skip in that range: tab, line feed, vertical
  tab, form feed, carriage return, space, no-break space.

  A \<^verbatim>\<open>number\<close> is \<^verbatim>\<open>NaN\<close> or an integer, and the arithmetic on integers is exact, as it
  is in JavaScript for integers of magnitude below \<open>2^53\<close>. Where a statement below depends
  on the value or the text of a number read from the device, it bounds the number by that
  magnitude.
\<close>

definition is_space :: "char \<Rightarrow> bool" where
  "is_space c =
     (c \<in> set [CHR 0x09, CHR 0x0A, CHR 0x0B, CHR 0x0C, CHR 0x0D, CHR '' '', CHR 0xA0])"

text \<open>
  The capital of a code unit, where it is one code unit again: the ASCII letters and the
  Latin-1 letters \<^verbatim>\<open>0xE0\<close> to \<^verbatim>\<open>0xFE\<close> (without the division sign \<^verbatim>\<open>0xF7\<close>). The capitals
  of the micro sign \<^verbatim>\<open>0xB5\<close> and of \<^verbatim>\<open>0xFF\<close> lie beyond the range and are the capital of
  no other code unit, so the two stand for their own capitals here; comparisons of
  capitalised strings and their lengths come out as in JavaScript. This is also what a
  regular expression with the \<^verbatim>\<open>i\<close> flag compares code units by.
\<close>

definition latin1_small :: string where
  "latin1_small =
     [CHR 0xE0, CHR 0xE1, CHR 0xE2, CHR 0xE3, CHR 0xE4, CHR 0xE5, CHR 0xE6,
      CHR 0xE7, CHR 0xE8, CHR 0xE9, CHR 0xEA, CHR 0xEB, CHR 0xEC, CHR 0xED,
      CHR 0xEE, CHR 0xEF, CHR 0xF0, CHR 0xF1, CHR 0xF2, CHR 0xF3, CHR 0xF4,
      CHR 0xF5, CHR 0xF6, CHR 0xF8, CHR 0xF9, CHR 0xFA, CHR 0xFB, CHR 0xFC,
      CHR 0xFD, CHR 0xFE]"

definition latin1_capital :: string where
  "latin1_capital =
     [CHR 0xC0, CHR 0xC1, CHR 0xC2, CHR 0xC3, CHR 0xC4, CHR 0xC5, CHR 0xC6,
      CHR 0xC7, CHR 0xC8, CHR 0xC9, CHR 0xCA, CHR 0xCB, CHR 0xCC, CHR 0xCD,
      CHR 0xCE, CHR 0xCF, CHR 0xD0, CHR 0xD1, CHR 0xD2, CHR 0xD3, CHR 0xD4,
      CHR 0xD5, CHR 0xD6, CHR 0xD8, CHR 0xD9, CHR 0xDA, CHR 0xDB, CHR 0xDC,
      CHR 0xDD, CHR 0xDE]"

definition upper_char :: "char \<Rightarrow> char" where
  "upper_char c =
     (case map_of (zip (''abcdefghijklmnopqrstuvwxyz'' @ latin1_small)
                       (''ABCDEFGHIJKLMNOPQRSTUVWXYZ'' @ latin1_capital)) c of
        Some u \<Rightarrow> u
      | None \<Rightarrow> c)"

text \<open>\<^verbatim>\<open>s.toUpperCase()\<close>: code unit by code unit, the sharp s \<^verbatim>\<open>0xDF\<close> becoming \<^verbatim>\<open>SS\<close>.\<close>

definition upper_units :: "char \<Rightarrow> string" where
  "upper_units c = (if c = CHR 0xDF then ''SS'' else [upper_char c])"

definition toUpperCase :: "string \<Rightarrow> string" where
  "toUpperCase s = concat (map upper_units s)"

definition trimStart :: "string \<Rightarrow> string" where
  "trimStart s = dropWhile is_space s"

definition trim :: "string \<Rightarrow> string" where
  "trim s = rev (dropWhile is_space (rev (dropWhile is_space s)))"

definition startsWith :: "string \<Rightarrow> string \<Rightarrow> bool" where
  "startsWith s p = (take (length p) s = p)"

text \<open>\<^verbatim>\<open>s.split(c)\<close> for a one-character separator: never the empty array.\<close>

fun split_on :: "char \<Rightarrow> string \<Rightarrow> string list" where
  "split_on c [] = [[]]"
| "split_on c (x # xs) =
     (if x = c then [] # split_on c xs
      else (case split_on c xs of
              [] \<Rightarrow> [[x]]
            | w # ws \<Rightarrow> (x # w) # ws))"

text \<open>\<^verbatim>\<open>parts.join(sep)\<close>.\<close>

fun join :: "string \<Rightarrow> string list \<Rightarrow> string" where
  "join sep [] = []"
| "join sep [x] = x"
| "join sep (x # y # ys) = x @ sep @ join sep (y # ys)"

text \<open>\<^verbatim>\<open>x || d\<close> on an optional string: \<^verbatim>\<open>undefined\<close> and the empty string are falsy.\<close>

definition or_default :: "string option \<Rightarrow> string \<Rightarrow> string" where
  "or_default x d = (case x of None \<Rightarrow> d | Some s \<Rightarrow> if s = [] then d else s)"

datatype number = NaN | Num int

text \<open>
  \<^verbatim>\<open>a + b\<close> on numbers: \<^verbatim>\<open>NaN\<close> is absorbing, and the sum of two integers is their exact
  sum (the sum JavaScript computes when it is of magnitude \<open>2^53\<close> at most).
\<close>

fun num_add :: "number \<Rightarrow> number \<Rightarrow> number" where
  "num_add (Num a) (Num b) = Num (a + b)"
| "num_add _ _ = NaN"

definition is_digit :: "char \<Rightarrow> bool" where
  "is_digit c = (c \<in> set ''0123456789'')"

definition digit_value :: "char \<Rightarrow> int" where
  "digit_value c = int (of_char c) - 48"

definition digits_value :: "string \<Rightarrow> int" where
  "digits_value ds = foldl (\<lambda>acc d. 10 * acc + digit_value d) 0 ds"

text \<open>
  \<^verbatim>\<open>parseInt(s, 10)\<close>: leading white space is skipped, one sign is read, then the longest
  run of decimal digits; whatever follows is ignored, and no digit at all gives \<^verbatim>\<open>NaN\<close>.
\<close>

definition parseInt10 :: "string \<Rightarrow> number" where
  "parseInt10 s =
     (let t = trimStart s;
          neg = (t \<noteq> [] \<and> hd t = CHR ''-'');
          r = (if t \<noteq> [] \<and> (hd t = CHR ''-'' \<or> hd t = CHR ''+'') then tl t else t);
          ds = takeWhile is_digit r
      in if ds = [] then NaN
         else Num (if neg then - digits_value ds else digits_value ds))"

text \<open>The decimal text of a number, as a template literal prints it.\<close>

fun show_nat :: "nat \<Rightarrow> string" where
  "show_nat n =
     (if n < 10 then [''0123456789'' ! n]
      else show_nat (n div 10) @ [''0123456789'' ! (n mod 10)])"

definition show_int :: "int \<Rightarrow> string" where
  "show_int i = (if i < 0 then CHR ''-'' # show_nat (nat (- i)) else show_nat (nat i))"

fun show_number :: "number \<Rightarrow> string" where
  "show_number NaN = ''NaN''"
| "show_number (Num i) = show_int i"

text \<open>A thrown \<^verbatim>\<open>Error\<close> with its message.\<close>

datatype error = Error string

section \<open>Messaging session: the inbound message buffer\<close>

text \<open>
  \<^verbatim>\<open>BambuLabMqttClient\<close> keeps the parsed inbound messages in \<^verbatim>\<open>messageBuffer\<close>.
  A message of type \<^verbatim>\<open>MQTTMessage\<close> has four optional top-level sections
  (\<^verbatim>\<open>print\<close>, \<^verbatim>\<open>pushing\<close>, \<^verbatim>\<open>system\<close>, \<^verbatim>\<open>gcode_line\<close>), each with an optional
  \<^verbatim>\<open>sequence_id\<close>; everything else the message carries is kept as an opaque string.
\<close>

record MsgSection =
  msg_sequence_id :: "string option"
  msg_command :: "string option"

record MQTTMessage =
  msg_print :: "MsgSection option"
  msg_pushing :: "MsgSection option"
  msg_system :: "MsgSection option"
  msg_gcode_line :: "MsgSection option"
  msg_rest :: string

text \<open>\<^verbatim>\<open>LIMITS.MAX_MESSAGE_BUFFER\<close> of \<^verbatim>\<open>constants.ts\<close>.\<close>

definition MAX_MESSAGE_BUFFER :: nat where
  "MAX_MESSAGE_BUFFER = 100"

text \<open>
  What \<^verbatim>\<open>JSON.parse(message.toString())\<close> makes of one inbound payload: a message, or an
  exception with its text.
\<close>

datatype inbound = Parsed MQTTMessage | Malformed string

record Session =
  messageBuffer :: "MQTTMessage list"
  lastParseError :: "string option"
  parseErrorHistory :: "string list"

definition new_session :: Session where
  "new_session = \<lparr>messageBuffer = [], lastParseError = None, parseErrorHistory = []\<rparr>"

text \<open>
  The \<^verbatim>\<open>'message'\<close> handler installed by \<^verbatim>\<open>connectOnce\<close>. \<^verbatim>\<open>shift()\<close> drops the head of
  the array, \<^verbatim>\<open>push\<close> appends. A payload that does not parse leaves the buffer alone and
  is recorded in the history of the last ten parse errors.
\<close>

definition push_message :: "MQTTMessage list \<Rightarrow> MQTTMessage \<Rightarrow> MQTTMessage list" where
  "push_message buf m =
     (if length buf \<ge> MAX_MESSAGE_BUFFER then tl buf else buf) @ [m]"

definition push_parse_error :: "string list \<Rightarrow> string \<Rightarrow> string list" where
  "push_parse_error hist e =
     (let h = hist @ [e] in if length h > 10 then tl h else h)"

fun on_message :: "Session \<Rightarrow> inbound \<Rightarrow> Session" where
  "on_message s (Parsed m) = s\<lparr>messageBuffer := push_message (messageBuffer s) m\<rparr>"
| "on_message s (Malformed e) =
     s\<lparr>lastParseError := Some e,
       parseErrorHistory := push_parse_error (parseErrorHistory s) e\<rparr>"

definition receive_all :: "Session \<Rightarrow> inbound list \<Rightarrow> Session" where
  "receive_all s evs = foldl on_message s evs"

text \<open>The payloads of a stream that parsed, in arrival order.\<close>

fun parsed_messages :: "inbound list \<Rightarrow> MQTTMessage list" where
  "parsed_messages [] = []"
| "parsed_messages (Parsed m # evs) = m # parsed_messages evs"
| "parsed_messages (Malformed e # evs) = parsed_messages evs"

text \<open>The most recent \<open>n\<close> entries of a list, oldest first.\<close>

definition most_recent :: "nat \<Rightarrow> 'a list \<Rightarrow> 'a list" where
  "most_recent n xs = drop (length xs - n) xs"

section \<open>Filament matcher\<close>

text \<open>The types of \<^verbatim>\<open>types.ts\<close> that \<^verbatim>\<open>FilamentMatcher\<close> reads and builds.\<close>

record FilamentProfile =
  index :: int
  type :: string
  colour :: string
  name :: string
  slotNumber :: int
  trayId :: int

datatype MatchQuality = Exact

record MatchedFilamentProfile = FilamentProfile +
  matchedSlot :: number
  matchedTrayId :: number
  matchQuality :: MatchQuality
  currentColor :: string
  currentType :: string

record FilamentMatchResult =
  mapping :: "number list"
  matches :: "MatchedFilamentProfile list"
  amsDetected :: bool
  totalSlots :: nat

text \<open>
  The part of a status message the matcher looks at: \<^verbatim>\<open>print.ams.ams[].tray[]\<close>, every
  level optional, and of a tray its \<^verbatim>\<open>id\<close>, \<^verbatim>\<open>tray_type\<close> and \<^verbatim>\<open>tray_color\<close>.
\<close>

record AMSTray =
  tray_id :: "string option"
  tray_type :: "string option"
  tray_color :: "string option"

record AMSUnit =
  tray :: "AMSTray list option"

record AMSData =
  ams :: "AMSUnit list option"

record PrintInfo =
  print_ams :: "AMSData option"

record PrinterStatus =
  print :: "PrintInfo option"

text \<open>\<^verbatim>\<open>{...p, matchedSlot: .., matchedTrayId: .., ..}\<close>: the profile with the match fields.\<close>

definition with_match ::
  "FilamentProfile \<Rightarrow> number \<Rightarrow> number \<Rightarrow> string \<Rightarrow> string \<Rightarrow> MatchedFilamentProfile" where
  "with_match p slot tid color ty =
     \<lparr>index = index p, type = type p, colour = colour p, name = name p,
      slotNumber = slotNumber p, trayId = trayId p,
      matchedSlot = slot, matchedTrayId = tid, matchQuality = Exact,
      currentColor = color, currentType = ty\<rparr>"

text \<open>The profile fields of a match entry.\<close>

definition profile_of :: "MatchedFilamentProfile \<Rightarrow> FilamentProfile" where
  "profile_of m =
     \<lparr>index = index m, type = type m, colour = colour m, name = name m,
      slotNumber = slotNumber m, trayId = trayId m\<rparr>"

text \<open>\<^verbatim>\<open>replace(/^#/, '')\<close> and \<^verbatim>\<open>replace(/\s+/g, '')\<close>.\<close>

definition strip_leading_hash :: "string \<Rightarrow> string" where
  "strip_leading_hash s = (if s \<noteq> [] \<and> hd s = CHR ''#'' then tl s else s)"

definition remove_whitespace :: "string \<Rightarrow> string" where
  "remove_whitespace s = filter (\<lambda>c. \<not> is_space c) s"

definition normalizeColor :: "string \<Rightarrow> string" where
  "normalizeColor color =
     (let normalized = remove_whitespace (strip_leading_hash (toUpperCase (trim color)))
      in if length normalized \<ge> 8 then take 6 normalized else normalized)"

definition normalizeType :: "string \<Rightarrow> string" where
  "normalizeType t = toUpperCase (trim t)"

text \<open>The test of \<^verbatim>\<open>findExactMatch\<close> on one tray: type and colour, both normalised.\<close>

definition tray_matches :: "FilamentProfile \<Rightarrow> AMSTray \<Rightarrow> bool" where
  "tray_matches profile t =
     (normalizeType (or_default (tray_type t) []) = normalizeType (type profile)
      \<and> normalizeColor (or_default (tray_color t) []) = normalizeColor (colour profile))"

fun findExactMatch :: "FilamentProfile \<Rightarrow> AMSTray list \<Rightarrow> MatchedFilamentProfile option" where
  "findExactMatch profile [] = None"
| "findExactMatch profile (t # trays) =
     (if tray_matches profile t then
        (let trayId = parseInt10 (or_default (tray_id t) ''0'')
         in Some (with_match profile (num_add trayId (Num 1)) trayId
                    (or_default (tray_color t) []) (or_default (tray_type t) [])))
      else findExactMatch profile trays)"

definition format_tray :: "AMSTray \<Rightarrow> string" where
  "format_tray t =
     ''Slot '' @ show_number (num_add (parseInt10 (or_default (tray_id t) ''0'')) (Num 1))
       @ '': '' @ or_default (tray_type t) ''Unknown''
       @ '' ('' @ or_default (tray_color t) ''Unknown'' @ '')''"

definition formatAvailableFilaments :: "AMSTray list \<Rightarrow> string" where
  "formatAvailableFilaments trays =
     (if trays = [] then ''No filaments loaded'' else join '', '' (map format_tray trays))"

definition filament_not_found :: "FilamentProfile \<Rightarrow> AMSTray list \<Rightarrow> error" where
  "filament_not_found profile trays =
     Error (''Filament not found in AMS: Need '' @ type profile @ '' ('' @ colour profile
            @ '') for profile '' @ show_int (index profile)
            @ ''. Available: '' @ formatAvailableFilaments trays)"

text \<open>The result of both branches that find no material bay to match against.\<close>

definition external_spool :: "FilamentProfile list \<Rightarrow> FilamentMatchResult" where
  "external_spool profiles =
     \<lparr>mapping = map (\<lambda>_. Num 0) profiles,
      matches = map (\<lambda>p. with_match p (Num 1) (Num 0) (colour p) (type p)) profiles,
      amsDetected = False,
      totalSlots = 1\<rparr>"

text \<open>\<^verbatim>\<open>amsData.ams.flatMap((unit) => unit.tray || [])\<close>.\<close>

definition flatten_trays :: "AMSUnit list \<Rightarrow> AMSTray list" where
  "flatten_trays units = concat (map (\<lambda>u. case tray u of None \<Rightarrow> [] | Some ts \<Rightarrow> ts) units)"

text \<open>
  The loop over the profiles, with the two arrays it pushes to; the \<^verbatim>\<open>throw\<close> leaves it at
  the first profile without a match.
\<close>

fun match_loop ::
  "FilamentProfile list \<Rightarrow> AMSTray list \<Rightarrow> number list \<Rightarrow> MatchedFilamentProfile list
     \<Rightarrow> error + (number list \<times> MatchedFilamentProfile list)" where
  "match_loop [] allTrays mapping_acc matches_acc = Inr (mapping_acc, matches_acc)"
| "match_loop (profile # profiles) allTrays mapping_acc matches_acc =
     (case findExactMatch profile allTrays of
        None \<Rightarrow> Inl (filament_not_found profile allTrays)
      | Some m \<Rightarrow>
          match_loop profiles allTrays (mapping_acc @ [matchedTrayId m]) (matches_acc @ [m]))"

definition ams_units :: "PrinterStatus \<Rightarrow> AMSUnit list option" where
  "ams_units currentStatus =
     (case print currentStatus of
        None \<Rightarrow> None
      | Some p \<Rightarrow> (case print_ams p of None \<Rightarrow> None | Some amsData \<Rightarrow> ams amsData))"

definition matchProfilesToAMS ::
  "FilamentProfile list \<Rightarrow> PrinterStatus \<Rightarrow> error + FilamentMatchResult" where
  "matchProfilesToAMS profiles currentStatus =
     (case ams_units currentStatus of
        None \<Rightarrow> Inr (external_spool profiles)
      | Some units \<Rightarrow>
          if length units = 0 then Inr (external_spool profiles)
          else
            (let allTrays = flatten_trays units
             in if length allTrays = 0 then Inr (external_spool profiles)
                else
                  (case match_loop profiles allTrays [] [] of
                     Inl e \<Rightarrow> Inl e
                   | Inr (mapping_acc, matches_acc) \<Rightarrow>
                       Inr \<lparr>mapping = mapping_acc, matches = matches_acc,
                            amsDetected = True, totalSlots = length allTrays\<rparr>)))"

text \<open>The trays a status reports, none when it reports no material bay.\<close>

definition reported_trays :: "PrinterStatus \<Rightarrow> AMSTray list" where
  "reported_trays currentStatus =
     (case ams_units currentStatus of None \<Rightarrow> [] | Some units \<Rightarrow> flatten_trays units)"

text \<open>
  A hex colour string, as the source files and the device write it: optional white space
  around it, at most one leading \<^verbatim>\<open>#\<close>, then hex digits in either case (six of them, or
  eight with an alpha channel, or any other number).
\<close>

definition is_hex_digit :: "char \<Rightarrow> bool" where
  "is_hex_digit c = (c \<in> set ''0123456789abcdefABCDEF'')"

definition is_hex_color :: "string \<Rightarrow> bool" where
  "is_hex_color x = list_all is_hex_digit (strip_leading_hash (trim x))"

text \<open>
  The helpers of the matcher's test file: a profile, a tray, a status with one unit that
  holds the given trays, and a status without a material bay.
\<close>

definition createProfile :: "int \<Rightarrow> string \<Rightarrow> string \<Rightarrow> FilamentProfile" where
  "createProfile i ty col =
     \<lparr>index = i, type = ty, colour = col, name = ty @ '' '' @ col,
      slotNumber = i + 1, trayId = i\<rparr>"

definition mock_tray :: "string \<Rightarrow> string \<Rightarrow> string \<Rightarrow> AMSTray" where
  "mock_tray i ty col = \<lparr>tray_id = Some i, tray_type = Some ty, tray_color = Some col\<rparr>"

definition createMockStatus :: "AMSTray list \<Rightarrow> PrinterStatus" where
  "createMockStatus trays =
     \<lparr>print = Some \<lparr>print_ams = Some \<lparr>ams = Some [\<lparr>tray = Some trays\<rparr>]\<rparr>\<rparr>\<rparr>"

definition status_without_ams :: PrinterStatus where
  "status_without_ams = \<lparr>print = Some \<lparr>print_ams = None\<rparr>\<rparr>"

definition four_trays :: "AMSTray list" where
  "four_trays =
     [mock_tray ''0'' ''PETG'' ''#515151'', mock_tray ''1'' ''PETG'' ''#000000'',
      mock_tray ''2'' ''PLA'' ''#68724D'', mock_tray ''3'' ''PLA'' ''#042F56'']"

section \<open>Filament profile parser\<close>

text \<open>
  \<^verbatim>\<open>ParsedFilamentData\<close> of \<^verbatim>\<open>types.ts\<close>, and what the scan of the header has read so far:
  the four arrays \<^verbatim>\<open>parseGcodeHeader\<close> assigns to.
\<close>

record ParsedFilamentData =
  profiles :: "FilamentProfile list"
  detectedMapping :: "int list"
  totalEmbedded :: nat

record HeaderScan =
  slotsUsed :: "int list"
  filamentTypes :: "string list"
  filamentColours :: "string list"
  filamentNames :: "string list"

definition empty_scan :: HeaderScan where
  "empty_scan = \<lparr>slotsUsed = [], filamentTypes = [], filamentColours = [], filamentNames = []\<rparr>"

text \<open>
  The callback of the last \<^verbatim>\<open>map\<close> in \<^verbatim>\<open>parseSlotUsage\<close>: \<^verbatim>\<open>parseInt\<close>, then the range check
  on the number it gives.
\<close>

definition invalid_slot_number :: "string \<Rightarrow> error" where
  \<open>invalid_slot_number s =
     Error (''Invalid AMS slot number: "'' @ s @ ''". Must be 1-4 for A1 series.'')\<close>

definition slot_of :: "string \<Rightarrow> error + int" where
  "slot_of s =
     (case parseInt10 s of
        NaN \<Rightarrow> Inl (invalid_slot_number s)
      | Num n \<Rightarrow> if n < 1 \<or> n > 4 then Inl (invalid_slot_number s) else Inr n)"

text \<open>\<^verbatim>\<open>map\<close> with a callback that may throw: the first throw ends it.\<close>

fun map_slots :: "string list \<Rightarrow> error + int list" where
  "map_slots [] = Inr []"
| "map_slots (s # ss) =
     (case slot_of s of
        Inl e \<Rightarrow> Inl e
      | Inr n \<Rightarrow> (case map_slots ss of Inl e \<Rightarrow> Inl e | Inr ns \<Rightarrow> Inr (n # ns)))"

definition parseSlotUsage :: "string \<Rightarrow> error + int list" where
  \<open>parseSlotUsage v =
     (case map_slots (filter (\<lambda>s. s \<noteq> []) (map trim (split_on CHR '','' v))) of
        Inl e \<Rightarrow> Inl e
      | Inr slots \<Rightarrow>
          if length slots = 0
          then Inl (Error ''No valid slot numbers found in "; filament:" line.'')
          else Inr slots)\<close>

text \<open>\<^verbatim>\<open>replace(/^"|"$/g, '')\<close>: one double quote off the front, one off the end.\<close>

definition strip_quotes :: "string \<Rightarrow> string" where
  \<open>strip_quotes s =
     (let s1 = (if s \<noteq> [] \<and> hd s = CHR ''"'' then tl s else s)
      in if s1 \<noteq> [] \<and> last s1 = CHR ''"'' then butlast s1 else s1)\<close>

text \<open>The body of the loop over the header lines.\<close>

definition header_line :: "HeaderScan \<Rightarrow> string \<Rightarrow> error + HeaderScan" where
  "header_line st line =
     (if \<not> startsWith line '';'' then Inr st
      else
        (let comment = trim (drop 1 line)
         in if startsWith comment ''filament:'' then
              (case parseSlotUsage (trim (drop (length ''filament:'') comment)) of
                 Inl e \<Rightarrow> Inl e
               | Inr slots \<Rightarrow> Inr (st\<lparr>slotsUsed := slots\<rparr>))
            else if startsWith comment ''filament_type ='' then
              Inr (st\<lparr>filamentTypes :=
                     map trim (split_on CHR '';''
                       (trim (drop (length ''filament_type ='') comment)))\<rparr>)
            else if startsWith comment ''filament_colour ='' then
              Inr (st\<lparr>filamentColours :=
                     map trim (split_on CHR '';''
                       (trim (drop (length ''filament_colour ='') comment)))\<rparr>)
            else if startsWith comment ''filament_settings_id ='' then
              Inr (st\<lparr>filamentNames :=
                     map (\<lambda>s. strip_quotes (trim s)) (split_on CHR '';''
                       (trim (drop (length ''filament_settings_id ='') comment)))\<rparr>)
            else Inr st))"

text \<open>
  The two directives the claims speak of, as the loop recognises them: the text after
  \<^verbatim>\<open>filament:\<close> of a slot-usage line, and the entries of a per-material type line.
\<close>

definition slot_usage_directive :: "string \<Rightarrow> string option" where
  "slot_usage_directive line =
     (if startsWith line '';'' \<and> startsWith (trim (drop 1 line)) ''filament:''
      then Some (trim (drop (length ''filament:'') (trim (drop 1 line))))
      else None)"

definition type_list_directive :: "string \<Rightarrow> string list option" where
  "type_list_directive line =
     (if startsWith line '';'' \<and> \<not> startsWith (trim (drop 1 line)) ''filament:''
         \<and> startsWith (trim (drop 1 line)) ''filament_type =''
      then Some (map trim (split_on CHR '';''
                   (trim (drop (length ''filament_type ='') (trim (drop 1 line))))))
      else None)"

fun scan_lines :: "HeaderScan \<Rightarrow> string list \<Rightarrow> error + HeaderScan" where
  "scan_lines st [] = Inr st"
| "scan_lines st (line # lines) =
     (case header_line st line of
        Inl e \<Rightarrow> Inl e
      | Inr st' \<Rightarrow> scan_lines st' lines)"

text \<open>\<^verbatim>\<open>gcodeContent.split('\n').slice(0, 500)\<close>.\<close>

definition header_lines :: "string \<Rightarrow> string list" where
  "header_lines gcodeContent = take 500 (split_on (CHR 0x0A) gcodeContent)"

text \<open>\<^verbatim>\<open>xs[i] || d\<close>: out of range and the empty string both give the default.\<close>

definition at_or :: "string list \<Rightarrow> int \<Rightarrow> string \<Rightarrow> string" where
  "at_or xs i d =
     (if 0 \<le> i \<and> nat i < length xs \<and> xs ! nat i \<noteq> [] then xs ! nat i else d)"

text \<open>The message of the bound check on the profile index.\<close>

definition invalid_profile_index :: "int \<Rightarrow> int \<Rightarrow> nat \<Rightarrow> error" where
  "invalid_profile_index profileIndex slot embedded =
     Error (''Invalid profile index '' @ show_int profileIndex @ '' for slot ''
            @ show_int slot @ ''. Only '' @ show_nat embedded
            @ '' profiles embedded in file.'')"

text \<open>The loop over the used slots, with the two arrays it pushes to.\<close>

fun build_profiles ::
  "HeaderScan \<Rightarrow> int list \<Rightarrow> FilamentProfile list \<Rightarrow> int list
     \<Rightarrow> error + (FilamentProfile list \<times> int list)" where
  "build_profiles st [] profiles_acc mapping_acc = Inr (profiles_acc, mapping_acc)"
| "build_profiles st (slot # rest) profiles_acc mapping_acc =
     (let profileIndex = slot - 1;
          tray_index = slot - 1
      in if profileIndex \<ge> int (length (filamentTypes st)) then
           Inl (invalid_profile_index profileIndex slot (length (filamentTypes st)))
         else
           build_profiles st rest
             (profiles_acc @
                [\<lparr>index = profileIndex,
                  type = at_or (filamentTypes st) profileIndex ''UNKNOWN'',
                  colour = at_or (filamentColours st) profileIndex ''#FFFFFF'',
                  name = at_or (filamentNames st) profileIndex ''Unknown Profile'',
                  slotNumber = slot,
                  trayId = tray_index\<rparr>])
             (mapping_acc @ [tray_index]))"

definition parseGcodeHeader :: "string \<Rightarrow> error + ParsedFilamentData" where
  \<open>parseGcodeHeader gcodeContent =
     (case scan_lines empty_scan (header_lines gcodeContent) of
        Inl e \<Rightarrow> Inl e
      | Inr st \<Rightarrow>
          if length (slotsUsed st) = 0 then
            Inl (Error (''Failed to parse gcode: "; filament:" line not found in header. ''
                   @ ''This may not be a valid Bambu Studio sliced file.''))
          else if length (filamentTypes st) = 0 then
            Inl (Error ''Failed to parse gcode: "; filament_type =" line not found in header.'')
          else
            (case build_profiles st (slotsUsed st) [] [] of
               Inl e \<Rightarrow> Inl e
             | Inr (ps, dm) \<Rightarrow>
                 Inr \<lparr>profiles = ps, detectedMapping = dm,
                      totalEmbedded = length (filamentTypes st)\<rparr>))\<close>

text \<open>
  \<^verbatim>\<open>parseFromBuffer\<close> opens the buffer with the archive library. What the library makes of
  the buffer is the input here: an exception with its message, or the entries by name.
\<close>

datatype archive = NotAnArchive string | Entries "(string \<times> string) list"

definition parseFromBuffer :: "archive \<Rightarrow> error + ParsedFilamentData" where
  "parseFromBuffer buffer =
     (case buffer of
        NotAnArchive msg \<Rightarrow>
          Inl (Error (''Failed to read .3mf file: Not a valid ZIP archive. '' @ msg))
      | Entries es \<Rightarrow>
          (case map_of es ''Metadata/plate_1.gcode'' of
             None \<Rightarrow>
               Inl (Error (''Failed to parse .3mf file: Metadata/plate_1.gcode not found. ''
                      @ ''This file may not be a sliced .3mf file, or may be corrupted.''))
           | Some gcodeContent \<Rightarrow> parseGcodeHeader gcodeContent))"

text \<open>The helper of the parser's test file, and two of the headers it parses.\<close>

definition createMock3MF :: "string \<Rightarrow> archive" where
  "createMock3MF gcodeContent = Entries [(''Metadata/plate_1.gcode'', gcodeContent)]"

definition gcode_of_lines :: "string list \<Rightarrow> string" where
  "gcode_of_lines ls = join [CHR 0x0A] ls"

definition two_of_five_gcode :: string where
  \<open>two_of_five_gcode = gcode_of_lines
     [''; HEADER_BLOCK_START'',
      ''; BambuStudio 02.03.00.70'',
      ''; filament: 1,2'',
      ''; total filament length [mm] : 2501.86,2492.10'',
      ''; HEADER_BLOCK_END'',
      '''',
      ''; CONFIG_BLOCK_START'',
      ''; filament_colour = #515151;#000000;#68724D;#042F56;#2850E0'',
      ''; filament_type = PETG;PETG;PLA;PLA;TPU'',
      ''; filament_settings_id = "Bambu PETG HF @BBL X1C";"Bambu PETG HF @BBL X1C";"Bambu PLA Matte @BBL X1C";"Bambu PLA Matte @BBL X1C";"Polymaker TPU 95A"'',
      ''; CONFIG_BLOCK_END'']\<close>

definition slot_four_of_two_gcode :: string where
  "slot_four_of_two_gcode = gcode_of_lines
     [''; filament: 4'',
      ''; filament_type = PLA;PLA'',
      ''; filament_colour = #FF0000;#00FF00'']"

definition slot_five_gcode :: string where
  "slot_five_gcode = gcode_of_lines
     [''; filament: 1,5'',
      ''; filament_type = PLA;PLA'',
      ''; filament_colour = #FF0000;#00FF00'']"

definition fractional_slot_gcode :: string where
  "fractional_slot_gcode = gcode_of_lines
     [''; filament: 1.5'',
      ''; filament_type = PLA;PLA'',
      ''; filament_colour = #FF0000;#00FF00'']"

section \<open>Retry helper\<close>

text \<open>
  \<^verbatim>\<open>RETRY_CONFIG\<close> of \<^verbatim>\<open>constants.ts\<close> and \<^verbatim>\<open>RetryOptions\<close>. Every option may be absent;
  delays are whole milliseconds.
\<close>

definition MAX_RETRIES :: int where "MAX_RETRIES = 3"
definition INITIAL_DELAY :: int where "INITIAL_DELAY = 1000"
definition MAX_DELAY :: int where "MAX_DELAY = 10000"
definition BACKOFF_MULTIPLIER :: int where "BACKOFF_MULTIPLIER = 2"

record RetryOptions =
  maxRetries :: "int option"
  initialDelay :: "int option"
  maxDelay :: "int option"
  backoffMultiplier :: "int option"

text \<open>\<^verbatim>\<open>x ?? d\<close>.\<close>

definition nullish :: "'a option \<Rightarrow> 'a \<Rightarrow> 'a" where
  "nullish x d = (case x of None \<Rightarrow> d | Some v \<Rightarrow> v)"

text \<open>
  \<^verbatim>\<open>pattern.test(s)\<close> for a pattern that is a plain ASCII word with the \<^verbatim>\<open>i\<close> flag: the word
  occurs in the string, letter case aside.
\<close>

fun str_includes :: "string \<Rightarrow> string \<Rightarrow> bool" where
  "str_includes [] p = (p = [])"
| "str_includes (c # s) p = (startsWith (c # s) p \<or> str_includes s p)"

definition test_i :: "string \<Rightarrow> string \<Rightarrow> bool" where
  "test_i pattern s = str_includes (map upper_char s) (map upper_char pattern)"

definition retryablePatterns :: "string list" where
  "retryablePatterns =
     [''ECONNREFUSED'', ''ECONNRESET'', ''ETIMEDOUT'', ''ENOTFOUND'',
      ''timeout'', ''network'', ''connection'']"

fun isRetryableError :: "error \<Rightarrow> bool" where
  "isRetryableError (Error message) = list_ex (\<lambda>pattern. test_i pattern message) retryablePatterns"

text \<open>
  One run of the wrapper, as seen from outside: what it returned or threw, how often it
  called the wrapped function, and the delays it slept, in order, each with the attempt
  number and the error handed to \<^verbatim>\<open>onRetry\<close>.
\<close>

record 'a RetryRun =
  outcome :: "error + 'a"
  invocations :: nat
  sleeps :: "(int \<times> error \<times> int) list"

text \<open>
  \<^verbatim>\<open>Math.min(initialDelay * Math.pow(backoffMultiplier, attempt - 1), maxDelay)\<close>, for an
  attempt number of at least one.
\<close>

definition retry_delay :: "RetryOptions \<Rightarrow> int \<Rightarrow> int" where
  "retry_delay options attempt =
     min (nullish (initialDelay options) INITIAL_DELAY
            * nullish (backoffMultiplier options) BACKOFF_MULTIPLIER ^ nat (attempt - 1))
         (nullish (maxDelay options) MAX_DELAY)"

text \<open>
  The loop of \<^verbatim>\<open>withConditionalRetry\<close>. The wrapped function has effects, so it is given
  by what its calls return, call by call: \<open>fn k\<close> is the result of call number \<open>k\<close>,
  counted from zero. \<open>attempt\<close> is the loop's counter, \<open>calls\<close> the number of calls made
  so far, \<open>slept\<close> the sleeps so far.
\<close>

function conditional_retry_loop ::
  "(nat \<Rightarrow> error + 'a) \<Rightarrow> RetryOptions \<Rightarrow> int \<Rightarrow> nat \<Rightarrow> (int \<times> error \<times> int) list
     \<Rightarrow> 'a RetryRun" where
  "conditional_retry_loop fn options attempt calls slept =
     (if attempt \<le> nullish (maxRetries options) MAX_RETRIES then
        (case fn calls of
           Inr v \<Rightarrow> \<lparr>outcome = Inr v, invocations = calls + 1, sleeps = slept\<rparr>
         | Inl err \<Rightarrow>
             if \<not> isRetryableError err then
               \<lparr>outcome = Inl err, invocations = calls + 1, sleeps = slept\<rparr>
             else if attempt + 1 > nullish (maxRetries options) MAX_RETRIES then
               \<lparr>outcome = Inl err, invocations = calls + 1, sleeps = slept\<rparr>
             else
               conditional_retry_loop fn options (attempt + 1) (calls + 1)
                 (slept @ [(attempt + 1, err, retry_delay options (attempt + 1))]))
      else
        \<lparr>outcome = Inl (Error ''Retry failed with unknown error''),
         invocations = calls, sleeps = slept\<rparr>)"
  by pat_completeness auto
termination
  by (relation "measure (\<lambda>(fn, options, attempt, calls, slept).
        nat (nullish (maxRetries options) MAX_RETRIES + 1 - attempt))") auto

declare conditional_retry_loop.simps [simp del]

definition withConditionalRetry :: "(nat \<Rightarrow> error + 'a) \<Rightarrow> RetryOptions \<Rightarrow> 'a RetryRun" where
  "withConditionalRetry fn options = conditional_retry_loop fn options 0 0 []"

text \<open>No option given: \<^verbatim>\<open>withConditionalRetry(fn)\<close>.\<close>

definition default_options :: RetryOptions where
  "default_options =
     \<lparr>maxRetries = None, initialDelay = None, maxDelay = None, backoffMultiplier = None\<rparr>"

text \<open>
  \<^verbatim>\<open>connect()\<close> wraps \<^verbatim>\<open>connectOnce()\<close> with \<^verbatim>\<open>maxRetries: 2\<close>. \<^verbatim>\<open>connectOnce\<close> rejects
  with the timeout error of \<^verbatim>\<open>ErrorHelper\<close>, or with the client's error or the failed
  subscription under a prefix of its own.
\<close>

definition connect_options :: RetryOptions where
  "connect_options =
     \<lparr>maxRetries = Some 2, initialDelay = None, maxDelay = None, backoffMultiplier = None\<rparr>"

definition mqttConnectionTimeout :: "int \<Rightarrow> error" where
  "mqttConnectionTimeout timeout =
     Error (''MQTT connection timeout after '' @ show_int timeout
            @ ''ms. Please check printer IP and network connection.'')"

definition mqtt_connection_error :: "string \<Rightarrow> error" where
  "mqtt_connection_error message = Error (''MQTT connection error: '' @ message)"

text \<open>\<^verbatim>\<open>ErrorHelper.isAuthError\<close>: the messages the repository reads as authentication errors.\<close>

definition authPatterns :: "string list" where
  "authPatterns = [''530'', ''login'', ''auth'', ''credential'', ''password'']"

fun isAuthError :: "error \<Rightarrow> bool" where
  "isAuthError (Error message) = list_ex (\<lambda>pattern. test_i pattern message) authPatterns"

section \<open>Command encoder\<close>

text \<open>
  The body under the top-level key of a command. The four body types of \<^verbatim>\<open>types.ts\<close> are
  taken together: \<^verbatim>\<open>sequence_id\<close> and \<^verbatim>\<open>command\<close> are always there, every other field is
  absent where a builder does not set it (\<^verbatim>\<open>file\<close> is \<open>file_name\<close> here).
\<close>

record CommandBody =
  sequence_id :: string
  command :: string
  param :: "string option"
  project_id :: "string option"
  profile_id :: "string option"
  task_id :: "string option"
  subtask_id :: "string option"
  url :: "string option"
  file_name :: "string option"
  subtask_name :: "string option"
  bed_type :: "string option"
  bed_leveling :: "bool option"
  flow_cali :: "bool option"
  vibration_cali :: "bool option"
  layer_inspect :: "bool option"
  timelapse :: "bool option"
  use_ams :: "bool option"
  ams_mapping :: "int list option"
  push_target :: "int option"
  led_node :: "string option"
  led_mode :: "string option"
  led_on_time :: "int option"
  led_off_time :: "int option"

text \<open>
  \<^verbatim>\<open>AnyCommand\<close>: one top-level key, \<^verbatim>\<open>print\<close>, \<^verbatim>\<open>pushing\<close>, \<^verbatim>\<open>system\<close> or \<^verbatim>\<open>gcode_line\<close>.
  The type lets the value under \<^verbatim>\<open>system\<close> be absent.
\<close>

datatype AnyCommand =
  PrintCommand CommandBody
| PushingCommand CommandBody
| SystemCommand "CommandBody option"
| GcodeLineCommand CommandBody

record PrintCommandOptions =
  bedLeveling :: "bool option"
  flowCalibration :: "bool option"
  vibrationCalibration :: "bool option"
  layerInspect :: "bool option"
  opt_timelapse :: "bool option"
  useAMS :: "bool option"
  amsMapping :: "int list option"

datatype LEDNode = chamber_light | work_light | logo_led

datatype LEDMode = led_on | led_off | led_flashing

fun led_node_text :: "LEDNode \<Rightarrow> string" where
  "led_node_text chamber_light = ''chamber_light''"
| "led_node_text work_light = ''work_light''"
| "led_node_text logo_led = ''logo_led''"

fun led_mode_text :: "LEDMode \<Rightarrow> string" where
  "led_mode_text led_on = ''on''"
| "led_mode_text led_off = ''off''"
| "led_mode_text led_flashing = ''flashing''"

text \<open>The state of a \<^verbatim>\<open>BambuLabCommands\<close> object: its counter.\<close>

record Encoder =
  sequenceId :: nat

definition new_encoder :: Encoder where
  "new_encoder = \<lparr>sequenceId = 0\<rparr>"

text \<open>\<^verbatim>\<open>(this.sequenceId++).toString()\<close>: the old value as text, and the counter moved on.\<close>

definition getNextSequenceId :: "Encoder \<Rightarrow> string \<times> Encoder" where
  "getNextSequenceId enc = (show_nat (sequenceId enc), enc\<lparr>sequenceId := sequenceId enc + 1\<rparr>)"

definition resetSequenceId :: "Encoder \<Rightarrow> Encoder" where
  "resetSequenceId enc = enc\<lparr>sequenceId := 0\<rparr>"

text \<open>A body with the two fields every command has.\<close>

definition body :: "string \<Rightarrow> string \<Rightarrow> CommandBody" where
  "body seq cmd =
     \<lparr>sequence_id = seq, command = cmd, param = None,
      project_id = None, profile_id = None, task_id = None, subtask_id = None,
      url = None, file_name = None, subtask_name = None, bed_type = None,
      bed_leveling = None, flow_cali = None, vibration_cali = None, layer_inspect = None,
      timelapse = None, use_ams = None, ams_mapping = None,
      push_target = None,
      led_node = None, led_mode = None, led_on_time = None, led_off_time = None\<rparr>"

text \<open>\<^verbatim>\<open>options?.field ?? d\<close>.\<close>

definition option_or :: "PrintCommandOptions option \<Rightarrow> (PrintCommandOptions \<Rightarrow> 'a option) \<Rightarrow> 'a \<Rightarrow> 'a" where
  "option_or options field d =
     (case options of None \<Rightarrow> d | Some opts \<Rightarrow> nullish (field opts) d)"

definition startPrint ::
  "string \<Rightarrow> PrintCommandOptions option \<Rightarrow> Encoder \<Rightarrow> AnyCommand \<times> Encoder" where
  "startPrint fileName options enc =
     (let fileUrl = (if startsWith fileName ''file:///'' then fileName
                     else ''file:///sdcard/'' @ fileName);
          displayName = or_default (Some (last (split_on CHR ''/'' fileName))) fileName;
          (seq, enc') = getNextSequenceId enc
      in (PrintCommand
            ((body seq ''project_file'')
               \<lparr>param := Some ''Metadata/plate_1.gcode'',
                project_id := Some [], profile_id := Some [],
                task_id := Some [], subtask_id := Some [],
                url := Some fileUrl, file_name := Some [], subtask_name := Some displayName,
                bed_type := Some ''auto'',
                bed_leveling := Some (option_or options bedLeveling True),
                flow_cali := Some (option_or options flowCalibration False),
                vibration_cali := Some (option_or options vibrationCalibration True),
                layer_inspect := Some (option_or options layerInspect False),
                timelapse := Some (option_or options opt_timelapse False),
                use_ams := Some (option_or options useAMS True),
                ams_mapping := Some (option_or options amsMapping [0])\<rparr>),
          enc'))"

definition print_command :: "string \<Rightarrow> Encoder \<Rightarrow> AnyCommand \<times> Encoder" where
  "print_command cmd enc =
     (let (seq, enc') = getNextSequenceId enc in (PrintCommand (body seq cmd), enc'))"

definition pausePrint :: "Encoder \<Rightarrow> AnyCommand \<times> Encoder" where
  "pausePrint = print_command ''pause''"

definition resumePrint :: "Encoder \<Rightarrow> AnyCommand \<times> Encoder" where
  "resumePrint = print_command ''resume''"

definition stopPrint :: "Encoder \<Rightarrow> AnyCommand \<times> Encoder" where
  "stopPrint = print_command ''stop''"

definition getPushAll :: "Encoder \<Rightarrow> AnyCommand \<times> Encoder" where
  "getPushAll enc =
     (let (seq, enc') = getNextSequenceId enc
      in (PushingCommand ((body seq ''pushall'')\<lparr>push_target := Some 1\<rparr>), enc'))"

definition startPushing :: "Encoder \<Rightarrow> AnyCommand \<times> Encoder" where
  "startPushing enc =
     (let (seq, enc') = getNextSequenceId enc in (PushingCommand (body seq ''start''), enc'))"

definition stopPushing :: "Encoder \<Rightarrow> AnyCommand \<times> Encoder" where
  "stopPushing enc =
     (let (seq, enc') = getNextSequenceId enc in (PushingCommand (body seq ''stop''), enc'))"

text \<open>\<^verbatim>\<open>setLED(node, mode, onTime = 500, offTime = 500)\<close>.\<close>

definition setLED ::
  "LEDNode \<Rightarrow> LEDMode \<Rightarrow> int option \<Rightarrow> int option \<Rightarrow> Encoder \<Rightarrow> AnyCommand \<times> Encoder" where
  "setLED node mode onTime offTime enc =
     (let (seq, enc') = getNextSequenceId enc
      in (SystemCommand (Some
            ((body seq ''ledctrl'')
               \<lparr>led_node := Some (led_node_text node),
                led_mode := Some (led_mode_text mode),
                led_on_time := Some (nullish onTime 500),
                led_off_time := Some (nullish offTime 500)\<rparr>)),
          enc'))"

definition sendGcode :: "string \<Rightarrow> string option \<Rightarrow> Encoder \<Rightarrow> AnyCommand \<times> Encoder" where
  "sendGcode gcode p enc =
     (let (seq, enc') = getNextSequenceId enc
      in (GcodeLineCommand ((body seq gcode)\<lparr>param := Some (or_default p [])\<rparr>), enc'))"

definition homeAxes :: "Encoder \<Rightarrow> AnyCommand \<times> Encoder" where
  "homeAxes = sendGcode ''G28'' None"

definition setSpeed :: "int \<Rightarrow> Encoder \<Rightarrow> AnyCommand \<times> Encoder" where
  "setSpeed speed enc =
     (let clampedSpeed = max 50 (min 166 speed);
          (seq, enc') = getNextSequenceId enc
      in (SystemCommand (Some
            ((body seq ''print_speed'')\<lparr>param := Some (show_int clampedSpeed)\<rparr>)),
          enc'))"

text \<open>
  \<^verbatim>\<open>Math.round((clampedSpeed / 100) * 255)\<close> for a whole percentage: halves round up.
\<close>

definition fan_value :: "int \<Rightarrow> int" where
  "fan_value speed = (let clampedSpeed = max 0 (min 100 speed) in (clampedSpeed * 510 + 100) div 200)"

definition setChamberFan :: "int \<Rightarrow> Encoder \<Rightarrow> AnyCommand \<times> Encoder" where
  "setChamberFan speed = sendGcode ''M106'' (Some (''P2 S'' @ show_int (fan_value speed)))"

definition setPartCoolingFan :: "int \<Rightarrow> Encoder \<Rightarrow> AnyCommand \<times> Encoder" where
  "setPartCoolingFan speed = sendGcode ''M106'' (Some (''P3 S'' @ show_int (fan_value speed)))"

definition unloadFilament :: "int \<Rightarrow> Encoder \<Rightarrow> AnyCommand \<times> Encoder" where
  "unloadFilament tray_number = sendGcode ''M620'' (Some (''P'' @ show_int tray_number @ ''A''))"

definition loadFilament :: "int \<Rightarrow> Encoder \<Rightarrow> AnyCommand \<times> Encoder" where
  "loadFilament tray_number = sendGcode ''M620'' (Some (''P'' @ show_int tray_number @ ''T255''))"

definition resumeFilamentLoad :: "Encoder \<Rightarrow> AnyCommand \<times> Encoder" where
  "resumeFilamentLoad = sendGcode ''M621'' (Some ''S255'')"

definition setBedTemperature :: "int \<Rightarrow> Encoder \<Rightarrow> AnyCommand \<times> Encoder" where
  "setBedTemperature temperature = sendGcode ''M140'' (Some (''S'' @ show_int temperature))"

definition setNozzleTemperature :: "int \<Rightarrow> Encoder \<Rightarrow> AnyCommand \<times> Encoder" where
  "setNozzleTemperature temperature = sendGcode ''M104'' (Some (''S'' @ show_int temperature))"

definition turnOffHeaters :: "Encoder \<Rightarrow> AnyCommand \<times> Encoder" where
  "turnOffHeaters = sendGcode ''M104 S0; M140 S0'' None"

definition emergencyStop :: "Encoder \<Rightarrow> AnyCommand \<times> Encoder" where
  "emergencyStop = sendGcode ''M112'' None"

text \<open>A call of one of the builders, and the command it builds.\<close>

datatype EncoderCall =
  StartPrint string "PrintCommandOptions option"
| PausePrint | ResumePrint | StopPrint
| GetPushAll | StartPushing | StopPushing
| SetLED LEDNode LEDMode "int option" "int option"
| SendGcode string "string option"
| HomeAxes
| SetSpeed int
| SetChamberFan int | SetPartCoolingFan int
| UnloadFilament int | LoadFilament int | ResumeFilamentLoad
| SetBedTemperature int | SetNozzleTemperature int
| TurnOffHeaters | EmergencyStop

fun encode :: "EncoderCall \<Rightarrow> Encoder \<Rightarrow> AnyCommand \<times> Encoder" where
  "encode (StartPrint fileName options) = startPrint fileName options"
| "encode PausePrint = pausePrint"
| "encode ResumePrint = resumePrint"
| "encode StopPrint = stopPrint"
| "encode GetPushAll = getPushAll"
| "encode StartPushing = startPushing"
| "encode StopPushing = stopPushing"
| "encode (SetLED node mode onTime offTime) = setLED node mode onTime offTime"
| "encode (SendGcode gcode p) = sendGcode gcode p"
| "encode HomeAxes = homeAxes"
| "encode (SetSpeed speed) = setSpeed speed"
| "encode (SetChamberFan speed) = setChamberFan speed"
| "encode (SetPartCoolingFan speed) = setPartCoolingFan speed"
| "encode (UnloadFilament t) = unloadFilament t"
| "encode (LoadFilament t) = loadFilament t"
| "encode ResumeFilamentLoad = resumeFilamentLoad"
| "encode (SetBedTemperature t) = setBedTemperature t"
| "encode (SetNozzleTemperature t) = setNozzleTemperature t"
| "encode TurnOffHeaters = turnOffHeaters"
| "encode EmergencyStop = emergencyStop"

section \<open>Messaging session: publishing a command\<close>

text \<open>
  The \<^verbatim>\<open>sequence_id\<close> that \<^verbatim>\<open>publishCommand\<close> reads off a command, by its top-level key.
\<close>

fun commandSeqId :: "AnyCommand \<Rightarrow> string option" where
  "commandSeqId (PrintCommand b) = Some (sequence_id b)"
| "commandSeqId (PushingCommand b) = Some (sequence_id b)"
| "commandSeqId (SystemCommand (Some b)) = Some (sequence_id b)"
| "commandSeqId (SystemCommand None) = None"
| "commandSeqId (GcodeLineCommand b) = Some (sequence_id b)"

record CommandResponse =
  success :: bool
  message :: string
  data :: "MQTTMessage option"
  response_sequence_id :: "string option"

text \<open>\<^verbatim>\<open>TIMEOUTS.MQTT_RESPONSE\<close> and the two errors of \<^verbatim>\<open>ErrorHelper\<close> that the call throws.\<close>

definition MQTT_RESPONSE :: int where
  "MQTT_RESPONSE = 30000"

definition mqttNotConnected :: error where
  "mqttNotConnected = Error ''MQTT client is not connected''"

definition commandResponseTimeout :: "int \<Rightarrow> error" where
  "commandResponseTimeout timeout =
     Error (''Command response timeout after '' @ show_int timeout @ ''ms'')"

text \<open>\<^verbatim>\<open>msg.print?.sequence_id\<close>, and the test of the \<^verbatim>\<open>find\<close> in the poll.\<close>

definition section_seq :: "MsgSection option \<Rightarrow> string option" where
  "section_seq sec = (case sec of None \<Rightarrow> None | Some x \<Rightarrow> msg_sequence_id x)"

definition bears :: "string \<Rightarrow> MQTTMessage \<Rightarrow> bool" where
  "bears seq m =
     (section_seq (msg_print m) = Some seq \<or> section_seq (msg_pushing m) = Some seq
      \<or> section_seq (msg_system m) = Some seq \<or> section_seq (msg_gcode_line m) = Some seq)"

text \<open>
  One run of the poll callback on the buffer: nothing on an empty buffer; otherwise the
  first message that bears the command's identifier, when the command has a non-empty one
  and such a message is buffered, and the last message of the buffer if not.
\<close>

definition poll :: "string option \<Rightarrow> MQTTMessage list \<Rightarrow> MQTTMessage option" where
  "poll seq buffer =
     (if length buffer > 0 then
        (let response = (case seq of
                           None \<Rightarrow> None
                         | Some i \<Rightarrow> if i = [] then None else find (bears i) buffer)
         in case response of None \<Rightarrow> Some (last buffer) | Some r \<Rightarrow> Some r)
      else None)"

text \<open>
  What the event loop runs while the call waits: the message handler on an inbound
  payload, the poll callback on a tick of the interval timer, the timeout callback. Each
  runs to its end before the next.
\<close>

datatype event = Inbound inbound | PollTick | ResponseTimeout

text \<open>
  The wait for the response over the events that follow the publish, in their order. The
  result is \<open>None\<close> while the promise is still pending at the end of the events given.
\<close>

fun await_response ::
  "string option \<Rightarrow> Session \<Rightarrow> event list \<Rightarrow> (error + CommandResponse) option \<times> Session" where
  "await_response seq s [] = (None, s)"
| "await_response seq s (Inbound i # evs) = await_response seq (on_message s i) evs"
| "await_response seq s (PollTick # evs) =
     (case poll seq (messageBuffer s) of
        None \<Rightarrow> await_response seq s evs
      | Some response \<Rightarrow>
          (Some (Inr \<lparr>success = True,
                      message = ''Command executed and response received'',
                      data = Some response,
                      response_sequence_id = None\<rparr>),
           s\<lparr>messageBuffer := []\<rparr>))"
| "await_response seq s (ResponseTimeout # evs) =
     (Some (Inl (commandResponseTimeout MQTT_RESPONSE)), s)"

text \<open>
  \<^verbatim>\<open>publishCommand(command, waitForResponse)\<close> on a session whose client is connected or
  not, followed by the events of the loop.
\<close>

definition publishCommand ::
  "bool \<Rightarrow> AnyCommand \<Rightarrow> bool \<Rightarrow> Session \<Rightarrow> event list
     \<Rightarrow> (error + CommandResponse) option \<times> Session" where
  "publishCommand connected cmd waitForResponse s evs =
     (if \<not> connected then (Some (Inl mqttNotConnected), s)
      else
        (let s1 = (if waitForResponse then s\<lparr>messageBuffer := []\<rparr> else s)
         in if \<not> waitForResponse then
              (Some (Inr \<lparr>success = True, message = ''Command sent successfully'',
                          data = None, response_sequence_id = commandSeqId cmd\<rparr>),
               s1)
            else await_response (commandSeqId cmd) s1 evs))"

text \<open>
  The events that leave an empty buffer empty and the promise pending: a tick of the poll
  timer, a payload that does not parse.
\<close>

fun quiet :: "event \<Rightarrow> bool" where
  "quiet PollTick = True"
| "quiet (Inbound (Malformed e)) = True"
| "quiet (Inbound (Parsed m)) = False"
| "quiet ResponseTimeout = False"

text \<open>An echo of a command under the \<^verbatim>\<open>print\<close> key, and a pushed report without identifier.\<close>

definition print_echo :: "string \<Rightarrow> string \<Rightarrow> MQTTMessage" where
  "print_echo seq cmd =
     \<lparr>msg_print = Some \<lparr>msg_sequence_id = Some seq, msg_command = Some cmd\<rparr>,
      msg_pushing = None, msg_system = None, msg_gcode_line = None, msg_rest = []\<rparr>"

definition status_report :: "string \<Rightarrow> MQTTMessage" where
  "status_report rest =
     \<lparr>msg_print = Some \<lparr>msg_sequence_id = None, msg_command = Some ''push_status''\<rparr>,
      msg_pushing = None, msg_system = None, msg_gcode_line = None, msg_rest = rest\<rparr>"

section \<open>Properties of the inbound buffer\<close>

lemma most_recent_length: "length (most_recent n xs) = min (length xs) n"
  by (simp add: most_recent_def)

lemma push_message_most_recent:
  "push_message (most_recent MAX_MESSAGE_BUFFER xs) m = most_recent MAX_MESSAGE_BUFFER (xs @ [m])"
proof (cases "length xs \<ge> MAX_MESSAGE_BUFFER")
  case True
  then have "tl (drop (length xs - MAX_MESSAGE_BUFFER) xs) = drop (Suc (length xs) - MAX_MESSAGE_BUFFER) xs"
    by (simp add: drop_Suc tl_drop Suc_diff_le)
  with True show ?thesis
    by (simp add: push_message_def most_recent_def MAX_MESSAGE_BUFFER_def)
next
  case False
  then show ?thesis
    by (simp add: push_message_def most_recent_def)
qed

lemma receive_all_buffer:
  "messageBuffer s = most_recent MAX_MESSAGE_BUFFER xs \<Longrightarrow>
   messageBuffer (receive_all s evs) = most_recent MAX_MESSAGE_BUFFER (xs @ parsed_messages evs)"
proof (induction evs arbitrary: s xs)
  case Nil
  then show ?case by (simp add: receive_all_def)
next
  case (Cons ev evs)
  show ?case
  proof (cases ev)
    case (Parsed m)
    have "messageBuffer (on_message s ev) = most_recent MAX_MESSAGE_BUFFER (xs @ [m])"
      using Cons.prems Parsed by (simp add: push_message_most_recent)
    from Cons.IH [OF this] show ?thesis
      using Parsed by (simp add: receive_all_def)
  next
    case (Malformed e)
    have "messageBuffer (on_message s ev) = most_recent MAX_MESSAGE_BUFFER xs"
      using Cons.prems Malformed by simp
    from Cons.IH [OF this] show ?thesis
      using Malformed by (simp add: receive_all_def)
  qed
qed

text \<open>
  Claim C2. Starting from the empty buffer of a new session, after any stream of inbound
  payloads the buffer holds exactly the most recent \<open>min n 100\<close> of the \<open>n\<close> messages
  that parsed, in arrival order; so it never holds more than 100 entries, and on a full
  buffer the oldest entry is the one that leaves.
\<close>

theorem message_buffer_bounded_fifo:
  "messageBuffer (receive_all new_session evs)
     = drop (length (parsed_messages evs) - 100) (parsed_messages evs)
   \<and> length (messageBuffer (receive_all new_session evs))
     = min (length (parsed_messages evs)) 100
   \<and> length (messageBuffer (receive_all new_session evs)) \<le> 100"
proof -
  have "messageBuffer new_session = most_recent MAX_MESSAGE_BUFFER []"
    by (simp add: new_session_def most_recent_def)
  from receive_all_buffer [OF this, of evs]
  have eq: "messageBuffer (receive_all new_session evs)
              = most_recent MAX_MESSAGE_BUFFER (parsed_messages evs)"
    by simp
  show ?thesis
    unfolding eq by (auto simp add: most_recent_def MAX_MESSAGE_BUFFER_def)
qed

section \<open>Properties of the filament matcher\<close>

lemma profile_of_with_match [simp]: "profile_of (with_match p a b c d) = p"
  by (simp add: profile_of_def with_match_def)

lemma with_match_fields [simp]:
  "matchedSlot (with_match p a b c d) = a"
  "matchedTrayId (with_match p a b c d) = b"
  "matchQuality (with_match p a b c d) = Exact"
  "currentColor (with_match p a b c d) = c"
  "currentType (with_match p a b c d) = d"
  by (simp_all add: with_match_def)

lemma findExactMatch_None: "findExactMatch p trays = None \<longleftrightarrow> find (tray_matches p) trays = None"
  by (induction trays) (auto simp: Let_def)

lemma findExactMatch_Some:
  "findExactMatch p trays = Some m \<longleftrightarrow>
     (\<exists>t. find (tray_matches p) trays = Some t
        \<and> m = with_match p (num_add (parseInt10 (or_default (tray_id t) ''0'')) (Num 1))
                 (parseInt10 (or_default (tray_id t) ''0''))
                 (or_default (tray_color t) []) (or_default (tray_type t) []))"
  by (induction trays) (auto simp: Let_def)

lemma match_loop_Inr:
  "match_loop ps trays mp ms = Inr (mp', ms') \<Longrightarrow>
     \<exists>new. ms' = ms @ new \<and> mp' = mp @ map matchedTrayId new
       \<and> list_all2 (\<lambda>p m. findExactMatch p trays = Some m) ps new"
proof (induction ps arbitrary: mp ms)
  case Nil
  then show ?case by simp
next
  case (Cons p ps)
  from Cons.prems obtain m where m: "findExactMatch p trays = Some m"
    and rest: "match_loop ps trays (mp @ [matchedTrayId m]) (ms @ [m]) = Inr (mp', ms')"
    by (auto split: option.splits)
  from Cons.IH [OF rest] obtain new where
    "ms' = (ms @ [m]) @ new" "mp' = (mp @ [matchedTrayId m]) @ map matchedTrayId new"
    "list_all2 (\<lambda>p m. findExactMatch p trays = Some m) ps new"
    by blast
  with m show ?case
    by (intro exI [of _ "m # new"]) simp
qed

lemma match_loop_Inl:
  "match_loop ps trays mp ms = Inl e \<Longrightarrow>
     \<exists>pre p post. ps = pre @ p # post
       \<and> list_all (\<lambda>q. findExactMatch q trays \<noteq> None) pre
       \<and> findExactMatch p trays = None \<and> e = filament_not_found p trays"
proof (induction ps arbitrary: mp ms)
  case Nil
  then show ?case by simp
next
  case (Cons q ps)
  show ?case
  proof (cases "findExactMatch q trays")
    case None
    with Cons.prems have "e = filament_not_found q trays" by simp
    with None show ?thesis
      by (intro exI [of _ "[]"] exI [of _ q] exI [of _ ps]) simp
  next
    case (Some m)
    with Cons.prems have "match_loop ps trays (mp @ [matchedTrayId m]) (ms @ [m]) = Inl e"
      by simp
    from Cons.IH [OF this] obtain pre p post where
      "ps = pre @ p # post" "list_all (\<lambda>q. findExactMatch q trays \<noteq> None) pre"
      "findExactMatch p trays = None" "e = filament_not_found p trays"
      by blast
    with Some show ?thesis
      by (intro exI [of _ "q # pre"] exI [of _ p] exI [of _ post]) simp
  qed
qed

lemma external_spool_props:
  "map profile_of (matches (external_spool ps)) = ps"
  "map matchedTrayId (matches (external_spool ps)) = replicate (length ps) (Num 0)"
  "mapping (external_spool ps) = replicate (length ps) (Num 0)"
  "length (matches (external_spool ps)) = length ps"
  "amsDetected (external_spool ps) = False"
  "totalSlots (external_spool ps) = 1"
  by (simp_all add: external_spool_def comp_def map_replicate_const)

lemma matchProfilesToAMS_no_trays:
  "reported_trays st = [] \<Longrightarrow> matchProfilesToAMS ps st = Inr (external_spool ps)"
  by (cases "ams_units st") (simp_all add: matchProfilesToAMS_def reported_trays_def Let_def)

lemma matchProfilesToAMS_trays:
  "reported_trays st \<noteq> [] \<Longrightarrow>
   matchProfilesToAMS ps st =
     (case match_loop ps (reported_trays st) [] [] of
        Inl e \<Rightarrow> Inl e
      | Inr (mp, ms) \<Rightarrow> Inr \<lparr>mapping = mp, matches = ms, amsDetected = True,
                             totalSlots = length (reported_trays st)\<rparr>)"
proof (cases "ams_units st")
  case None
  assume "reported_trays st \<noteq> []"
  with None show ?thesis by (simp add: reported_trays_def)
next
  case (Some units)
  assume ne: "reported_trays st \<noteq> []"
  with Some have 1: "flatten_trays units \<noteq> []" by (simp add: reported_trays_def)
  then have 2: "units \<noteq> []" by (auto simp: flatten_trays_def)
  have rt: "reported_trays st = flatten_trays units"
    using Some by (simp add: reported_trays_def)
  from Some 1 2 show ?thesis
    unfolding rt by (simp add: matchProfilesToAMS_def Let_def)
qed

lemma format_tray_entries:
  "list_all2 (\<lambda>t e. \<exists>slot. e = ''Slot '' @ slot @ '': '' @ or_default (tray_type t) ''Unknown''
                            @ '' ('' @ or_default (tray_color t) ''Unknown'' @ '')''
                  \<and> (case parseInt10 (or_default (tray_id t) ''0'') of
                        NaN \<Rightarrow> slot = ''NaN''
                      | Num n \<Rightarrow> \<bar>n\<bar> < 2 ^ 53 \<longrightarrow> slot = show_int (n + 1)))
     trays (map format_tray trays)"
proof -
  have "\<exists>slot. format_tray t = ''Slot '' @ slot @ '': '' @ or_default (tray_type t) ''Unknown''
                            @ '' ('' @ or_default (tray_color t) ''Unknown'' @ '')''
                  \<and> (case parseInt10 (or_default (tray_id t) ''0'') of
                        NaN \<Rightarrow> slot = ''NaN''
                      | Num n \<Rightarrow> \<bar>n\<bar> < 2 ^ 53 \<longrightarrow> slot = show_int (n + 1))" for t
    by (intro exI [of _ "show_number (num_add (parseInt10 (or_default (tray_id t) ''0'')) (Num 1))"])
       (simp add: format_tray_def split: number.splits)
  then show ?thesis
    by (simp add: list_all2_map2 list_all2_same)
qed

text \<open>
  Claim C3. \<^verbatim>\<open>matchProfilesToAMS\<close> is all or nothing. Either it returns a result whose
  match entries are the input profiles in their order, one entry each, with \<^verbatim>\<open>mapping\<close>
  the tray ids of those entries; or it throws at the first profile without a matching
  tray. The message then carries that profile's type and colour as declared, its index
  (in decimal, where of magnitude below \<open>2^53\<close>) and, after \<^verbatim>\<open>Available:\<close>, one entry for
  every reported tray, in the order of the scan and joined by
  commas: \<^verbatim>\<open>Slot <slot>: <type> (<colour>)\<close>, with \<^verbatim>\<open>Unknown\<close> for a type or a colour that
  is missing or empty. The slot is the tray's id plus one, in decimal, where the id reads
  as an integer of magnitude below \<open>2^53\<close>, and \<^verbatim>\<open>NaN\<close> where it reads as no number. No
  shorter mapping comes back.
\<close>

theorem matchProfilesToAMS_atomic:
  "(\<exists>r. matchProfilesToAMS ps currentStatus = Inr r
        \<and> map profile_of (matches r) = ps
        \<and> mapping r = map matchedTrayId (matches r)
        \<and> length (mapping r) = length ps)
   \<or> (\<exists>pre p post number entries. ps = pre @ p # post
        \<and> list_all (\<lambda>q. findExactMatch q (reported_trays currentStatus) \<noteq> None) pre
        \<and> findExactMatch p (reported_trays currentStatus) = None
        \<and> matchProfilesToAMS ps currentStatus =
            Inl (Error (''Filament not found in AMS: Need '' @ type p @ '' ('' @ colour p
                        @ '') for profile '' @ number @ ''. Available: ''
                        @ join '', '' entries))
        \<and> (\<bar>index p\<bar> < 2 ^ 53 \<longrightarrow> number = show_int (index p))
        \<and> list_all2
            (\<lambda>t e. \<exists>slot. e = ''Slot '' @ slot @ '': '' @ or_default (tray_type t) ''Unknown''
                              @ '' ('' @ or_default (tray_color t) ''Unknown'' @ '')''
                    \<and> (case parseInt10 (or_default (tray_id t) ''0'') of
                          NaN \<Rightarrow> slot = ''NaN''
                        | Num n \<Rightarrow> \<bar>n\<bar> < 2 ^ 53 \<longrightarrow> slot = show_int (n + 1)))
            (reported_trays currentStatus) entries)"
proof (cases "reported_trays currentStatus = []")
  case True
  from matchProfilesToAMS_no_trays [OF True, of ps] show ?thesis
    by (simp add: external_spool_props)
next
  case False
  note run = matchProfilesToAMS_trays [OF False, of ps]
  show ?thesis
  proof (cases "match_loop ps (reported_trays currentStatus) [] []")
    case (Inl e)
    from match_loop_Inl [OF Inl] obtain pre p post where
      "ps = pre @ p # post"
      "list_all (\<lambda>q. findExactMatch q (reported_trays currentStatus) \<noteq> None) pre"
      "findExactMatch p (reported_trays currentStatus) = None"
      "e = filament_not_found p (reported_trays currentStatus)"
      by blast
    with run Inl False show ?thesis
      by (intro disjI2 exI [of _ pre] exI [of _ p] exI [of _ post]
            exI [of _ "show_int (index p)"]
            exI [of _ "map format_tray (reported_trays currentStatus)"] conjI
            format_tray_entries)
         (simp_all add: filament_not_found_def formatAvailableFilaments_def)
  next
    case (Inr res)
    obtain mp ms where res: "res = (mp, ms)" by (cases res)
    from match_loop_Inr [OF Inr [unfolded res]] have
      ms: "mp = map matchedTrayId ms"
      and all: "list_all2 (\<lambda>p m. findExactMatch p (reported_trays currentStatus) = Some m) ps ms"
      by auto
    have "list_all2 (\<lambda>p m. profile_of m = p) ps ms"
      using all by (rule list_all2_mono) (auto simp: findExactMatch_Some)
    then have "map profile_of ms = ps"
      by (induction rule: list_all2_induct) simp_all
    moreover have "length ms = length ps"
      using all by (simp add: list_all2_lengthD)
    ultimately show ?thesis
      using run Inr res ms by simp
  qed
qed


text \<open>
  The matcher's own test of the missing material: four trays with the ids \<^verbatim>\<open>0\<close> to \<^verbatim>\<open>3\<close>, and
  the listing names the slots 1 to 4.
\<close>

lemma missing_filament_is_error:
  "isl (matchProfilesToAMS [createProfile 0 ''TPU'' ''#FF0000''] (createMockStatus four_trays))"
  by code_simp

lemma reported_four_trays: "reported_trays (createMockStatus four_trays) = four_trays"
  by code_simp

lemma four_tray_numbers:
  "map (\<lambda>t. parseInt10 (or_default (tray_id t) ''0'')) four_trays = [Num 0, Num 1, Num 2, Num 3]"
  by code_simp

lemma small_numbers_text:
  "show_int 0 = ''0''" "show_int 1 = ''1''" "show_int 2 = ''2''" "show_int 3 = ''3''"
  "show_int 4 = ''4''"
  by code_simp+

theorem matchProfilesToAMS_atomic_witness:
  "map (\<lambda>t. parseInt10 (or_default (tray_id t) ''0'')) four_trays = [Num 0, Num 1, Num 2, Num 3]
   \<and> \<bar>index (createProfile 0 ''TPU'' ''#FF0000'')\<bar> < 2 ^ 53
   \<and> matchProfilesToAMS [createProfile 0 ''TPU'' ''#FF0000''] (createMockStatus four_trays)
     = Inl (Error (''Filament not found in AMS: Need TPU (#FF0000) for profile 0. ''
          @ ''Available: Slot 1: PETG (#515151), Slot 2: PETG (#000000), ''
          @ ''Slot 3: PLA (#68724D), Slot 4: PLA (#042F56)''))"
proof (intro conjI)
  show "map (\<lambda>t. parseInt10 (or_default (tray_id t) ''0'')) four_trays
          = [Num 0, Num 1, Num 2, Num 3]"
    by (rule four_tray_numbers)
next
  show "\<bar>index (createProfile 0 ''TPU'' ''#FF0000'')\<bar> < 2 ^ 53"
    by (simp add: createProfile_def)
next
  let ?p = "createProfile 0 ''TPU'' ''#FF0000''"
  let ?st = "createMockStatus four_trays"
  from matchProfilesToAMS_atomic [of "[?p]" ?st]
  show "matchProfilesToAMS [?p] ?st
     = Inl (Error (''Filament not found in AMS: Need TPU (#FF0000) for profile 0. ''
          @ ''Available: Slot 1: PETG (#515151), Slot 2: PETG (#000000), ''
          @ ''Slot 3: PLA (#68724D), Slot 4: PLA (#042F56)''))"
  proof (elim disjE exE conjE)
    fix r
    assume "matchProfilesToAMS [?p] ?st = Inr r"
    with missing_filament_is_error show ?thesis by simp
  next
    fix pre p post number entries
    assume ps: "[?p] = pre @ p # post"
      and msg: "matchProfilesToAMS [?p] ?st =
            Inl (Error (''Filament not found in AMS: Need '' @ type p @ '' ('' @ colour p
                        @ '') for profile '' @ number @ ''. Available: ''
                        @ join '', '' entries))"
      and num: "\<bar>index p\<bar> < 2 ^ 53 \<longrightarrow> number = show_int (index p)"
      and ents: "list_all2
            (\<lambda>t e. \<exists>slot. e = ''Slot '' @ slot @ '': '' @ or_default (tray_type t) ''Unknown''
                              @ '' ('' @ or_default (tray_color t) ''Unknown'' @ '')''
                    \<and> (case parseInt10 (or_default (tray_id t) ''0'') of
                          NaN \<Rightarrow> slot = ''NaN''
                        | Num n \<Rightarrow> \<bar>n\<bar> < 2 ^ 53 \<longrightarrow> slot = show_int (n + 1)))
            (reported_trays ?st) entries"
    from ps have p: "p = ?p" by (simp add: Cons_eq_append_conv)
    from four_tray_numbers have ids:
      "parseInt10 (or_default (tray_id (mock_tray ''0'' ''PETG'' ''#515151'')) ''0'') = Num 0"
      "parseInt10 (or_default (tray_id (mock_tray ''1'' ''PETG'' ''#000000'')) ''0'') = Num 1"
      "parseInt10 (or_default (tray_id (mock_tray ''2'' ''PLA'' ''#68724D'')) ''0'') = Num 2"
      "parseInt10 (or_default (tray_id (mock_tray ''3'' ''PLA'' ''#042F56'')) ''0'') = Num 3"
      by (simp_all add: four_trays_def)
    from ents have "entries = [''Slot 1: PETG (#515151)'', ''Slot 2: PETG (#000000)'',
                               ''Slot 3: PLA (#68724D)'', ''Slot 4: PLA (#042F56)'']"
      unfolding reported_four_trays
      unfolding four_trays_def
      by (auto simp: list_all2_Cons1 ids small_numbers_text)
         (simp_all add: mock_tray_def or_default_def)
    moreover from num p have "number = ''0''"
      by (simp add: createProfile_def small_numbers_text)
    ultimately show ?thesis
      using msg p by (simp add: createProfile_def)
  qed
qed

text \<open>Two more of the matcher's tests: a miss at the second profile, and two trays alike.\<close>

lemma second_profile_missing_no_partial:
  "matchProfilesToAMS [createProfile 0 ''PETG'' ''#000000'', createProfile 1 ''TPU'' ''#FF0000'']
     (createMockStatus four_trays)
   = Inl (filament_not_found (createProfile 1 ''TPU'' ''#FF0000'') four_trays)"
  by code_simp

lemma first_duplicate_wins:
  "map_sum id mapping
     (matchProfilesToAMS [createProfile 0 ''PETG'' ''#000000'']
        (createMockStatus
           [mock_tray ''0'' ''PETG'' ''#515151'', mock_tray ''1'' ''PETG'' ''#000000'',
            mock_tray ''2'' ''PLA'' ''#68724D'', mock_tray ''3'' ''PETG'' ''#000000'']))
   = Inr [Num 1]"
  by code_simp

text \<open>
  Claim C5. When the status reports no material bay, or a bay whose units hold no tray at
  all, the matcher returns (it never rejects a profile) with \<^verbatim>\<open>amsDetected = false\<close>,
  \<^verbatim>\<open>totalSlots = 1\<close>, a mapping of zeros as long as the profile list, and one match entry
  per profile with \<^verbatim>\<open>matchedTrayId = 0\<close> and quality \<^verbatim>\<open>'exact'\<close>.
\<close>

theorem no_material_bay_single_spool:
  assumes "reported_trays currentStatus = []"
  shows "\<exists>r. matchProfilesToAMS ps currentStatus = Inr r
           \<and> amsDetected r = False \<and> totalSlots r = 1
           \<and> mapping r = replicate (length ps) (Num 0)
           \<and> length (matches r) = length ps
           \<and> map profile_of (matches r) = ps
           \<and> list_all (\<lambda>m. matchedTrayId m = Num 0 \<and> matchQuality m = Exact) (matches r)"
proof -
  have "list_all (\<lambda>m. matchedTrayId m = Num 0 \<and> matchQuality m = Exact)
          (matches (external_spool ps))"
    by (simp add: external_spool_def list_all_iff)
  moreover have "length (matches (external_spool ps)) = length ps"
    by (simp add: external_spool_def)
  ultimately show ?thesis
    using matchProfilesToAMS_no_trays [OF assms, of ps]
    by (simp add: external_spool_props)
qed

theorem no_material_bay_single_spool_witness:
  "reported_trays status_without_ams = []
   \<and> (\<exists>r. matchProfilesToAMS [createProfile 0 ''PETG'' ''#000000''] status_without_ams = Inr r
          \<and> amsDetected r = False \<and> totalSlots r = 1 \<and> mapping r = [Num 0]
          \<and> list_all (\<lambda>m. matchedTrayId m = Num 0 \<and> matchQuality m = Exact) (matches r))"
proof -
  have h: "reported_trays status_without_ams = []" by code_simp
  from no_material_bay_single_spool [OF h, of "[createProfile 0 ''PETG'' ''#000000'']"]
  obtain r where
    r: "matchProfilesToAMS [createProfile 0 ''PETG'' ''#000000''] status_without_ams = Inr r
         \<and> amsDetected r = False \<and> totalSlots r = 1
         \<and> mapping r = replicate (length [createProfile 0 ''PETG'' ''#000000'']) (Num 0)
         \<and> length (matches r) = length [createProfile 0 ''PETG'' ''#000000'']
         \<and> map profile_of (matches r) = [createProfile 0 ''PETG'' ''#000000'']
         \<and> list_all (\<lambda>m. matchedTrayId m = Num 0 \<and> matchQuality m = Exact) (matches r)" ..
  show ?thesis
  proof (intro conjI exI [of _ r])
    show "reported_trays status_without_ams = []" by (rule h)
    show "matchProfilesToAMS [createProfile 0 ''PETG'' ''#000000''] status_without_ams = Inr r"
      using r by (rule conjunct1)
    show "amsDetected r = False" using r by simp
    show "totalSlots r = 1" using r by simp
    show "mapping r = [Num 0]" using r by simp
    show "list_all (\<lambda>m. matchedTrayId m = Num 0 \<and> matchQuality m = Exact) (matches r)"
      using r by simp
  qed
qed

lemma empty_tray_array_single_spool:
  "matchProfilesToAMS [createProfile 0 ''PETG'' ''#000000''] (createMockStatus [])
     = Inr (external_spool [createProfile 0 ''PETG'' ''#000000''])"
  by code_simp

text \<open>
  Claim C10, as amended. In a result with a material bay detected, the entry of a profile
  stands for the first reported tray that matches the profile. Where \<^verbatim>\<open>parseInt\<close> reads
  the \<^verbatim>\<open>id\<close> string of that tray as an integer \<open>n\<close> of magnitude below \<open>2^53\<close>, the entry
  has \<^verbatim>\<open>matchedTrayId = n\<close> and \<^verbatim>\<open>matchedSlot = n + 1\<close>, whatever the position of the tray in
  the scan; and \<^verbatim>\<open>mapping\<close> lists the \<^verbatim>\<open>matchedTrayId\<close> of the entries. In a result without
  a material bay every entry has tray 0 and slot 1, and the mapping is all zeros.
\<close>

theorem matched_tray_id_is_parsed_id:
  assumes "matchProfilesToAMS ps currentStatus = Inr r"
  shows "if amsDetected r then
           list_all2
             (\<lambda>p m. \<exists>t. find (tray_matches p) (reported_trays currentStatus) = Some t
                      \<and> (\<forall>n. parseInt10 (or_default (tray_id t) ''0'') = Num n \<and> \<bar>n\<bar> < 2 ^ 53
                            \<longrightarrow> matchedTrayId m = Num n \<and> matchedSlot m = Num (n + 1)))
             ps (matches r)
           \<and> mapping r = map matchedTrayId (matches r)
         else
           list_all (\<lambda>m. matchedTrayId m = Num 0 \<and> matchedSlot m = Num 1) (matches r)
           \<and> mapping r = map (\<lambda>p. Num 0) ps"
proof (cases "reported_trays currentStatus = []")
  case True
  from matchProfilesToAMS_no_trays [OF True, of ps] assms
  have r: "r = external_spool ps" by simp
  show ?thesis
    unfolding r by (simp add: external_spool_def list_all_iff)
next
  case False
  note run = matchProfilesToAMS_trays [OF False, of ps]
  from run assms obtain mp ms where
    loop: "match_loop ps (reported_trays currentStatus) [] [] = Inr (mp, ms)"
    and r: "r = \<lparr>mapping = mp, matches = ms, amsDetected = True,
                  totalSlots = length (reported_trays currentStatus)\<rparr>"
    by (auto split: sum.splits)
  from match_loop_Inr [OF loop] have
    mp: "mp = map matchedTrayId ms"
    and all: "list_all2 (\<lambda>p m. findExactMatch p (reported_trays currentStatus) = Some m) ps ms"
    by auto
  have "list_all2
             (\<lambda>p m. \<exists>t. find (tray_matches p) (reported_trays currentStatus) = Some t
                      \<and> (\<forall>n. parseInt10 (or_default (tray_id t) ''0'') = Num n \<and> \<bar>n\<bar> < 2 ^ 53
                            \<longrightarrow> matchedTrayId m = Num n \<and> matchedSlot m = Num (n + 1)))
             ps ms"
    using all by (rule list_all2_mono) (auto simp: findExactMatch_Some)
  with mp show ?thesis
    unfolding r by simp
qed

text \<open>
  The scenario of a profile \<^verbatim>\<open>PLA\<close>, \<^verbatim>\<open>FF0000\<close> against the single tray with id \<^verbatim>\<open>"2"\<close>,
  \<^verbatim>\<open>PLA\<close>, \<^verbatim>\<open>#ff0000ff\<close>: the tray is first in the scan and the entry says tray 2, slot 3.
\<close>

lemma scenario_run:
  "matchProfilesToAMS [createProfile 0 ''PLA'' ''FF0000'']
      (createMockStatus [mock_tray ''2'' ''PLA'' ''#ff0000ff''])
   = Inr \<lparr>mapping = [Num 2],
          matches = [with_match (createProfile 0 ''PLA'' ''FF0000'') (Num 3) (Num 2)
                       ''#ff0000ff'' ''PLA''],
          amsDetected = True, totalSlots = 1\<rparr>"
  by code_simp

lemma scenario_find:
  "find (tray_matches (createProfile 0 ''PLA'' ''FF0000''))
         (reported_trays (createMockStatus [mock_tray ''2'' ''PLA'' ''#ff0000ff'']))
       = Some (mock_tray ''2'' ''PLA'' ''#ff0000ff'')"
  by code_simp

lemma scenario_tray_number:
  "parseInt10 (or_default (tray_id (mock_tray ''2'' ''PLA'' ''#ff0000ff'')) ''0'') = Num 2"
  by code_simp

theorem matched_tray_id_is_parsed_id_witness:
  "\<exists>r m. matchProfilesToAMS [createProfile 0 ''PLA'' ''FF0000'']
            (createMockStatus [mock_tray ''2'' ''PLA'' ''#ff0000ff'']) = Inr r
     \<and> amsDetected r \<and> matches r = [m]
     \<and> find (tray_matches (createProfile 0 ''PLA'' ''FF0000''))
         (reported_trays (createMockStatus [mock_tray ''2'' ''PLA'' ''#ff0000ff'']))
         = Some (mock_tray ''2'' ''PLA'' ''#ff0000ff'')
     \<and> parseInt10 (or_default (tray_id (mock_tray ''2'' ''PLA'' ''#ff0000ff'')) ''0'') = Num 2
     \<and> \<bar>2 :: int\<bar> < 2 ^ 53
     \<and> matchedTrayId m = Num 2 \<and> matchedSlot m = Num 3 \<and> mapping r = [Num 2]"
proof -
  let ?p = "createProfile 0 ''PLA'' ''FF0000''"
  let ?m = "with_match ?p (Num 3) (Num 2) ''#ff0000ff'' ''PLA''"
  let ?r = "\<lparr>mapping = [Num 2], matches = [?m], amsDetected = True, totalSlots = 1\<rparr>"
  from matched_tray_id_is_parsed_id [OF scenario_run]
  have "\<exists>t. find (tray_matches ?p)
               (reported_trays (createMockStatus [mock_tray ''2'' ''PLA'' ''#ff0000ff''])) = Some t
          \<and> (\<forall>n. parseInt10 (or_default (tray_id t) ''0'') = Num n \<and> \<bar>n\<bar> < 2 ^ 53
                 \<longrightarrow> matchedTrayId ?m = Num n \<and> matchedSlot ?m = Num (n + 1))"
    and mp: "mapping ?r = map matchedTrayId (matches ?r)"
    by simp_all
  then have "\<forall>n. parseInt10 (or_default (tray_id (mock_tray ''2'' ''PLA'' ''#ff0000ff'')) ''0'')
                    = Num n \<and> \<bar>n\<bar> < 2 ^ 53
                 \<longrightarrow> matchedTrayId ?m = Num n \<and> matchedSlot ?m = Num (n + 1)"
    by (simp add: scenario_find)
  then have "matchedTrayId ?m = Num 2 \<and> matchedSlot ?m = Num (2 + 1)"
    using scenario_tray_number by simp
  with mp show ?thesis
    by (intro exI [of _ ?r] exI [of _ ?m])
       (simp add: scenario_run scenario_find scenario_tray_number)
qed

text \<open>
  The claim as first stated has this of every result. An \<^verbatim>\<open>id\<close> that does not begin with
  a number is read as \<^verbatim>\<open>NaN\<close>: the tray still matches by type and colour, and the entry
  of the profile then holds no integer, neither as tray id nor as slot, and the mapping
  holds \<^verbatim>\<open>NaN\<close>.
\<close>

theorem tray_id_not_a_number:
  "matchProfilesToAMS [createProfile 0 ''PLA'' ''FF0000'']
      (createMockStatus [mock_tray ''abc'' ''PLA'' ''#ff0000ff''])
   = Inr \<lparr>mapping = [NaN],
          matches = [with_match (createProfile 0 ''PLA'' ''FF0000'') NaN NaN
                       ''#ff0000ff'' ''PLA''],
          amsDetected = True, totalSlots = 1\<rparr>"
  by code_simp

section \<open>Colour normalisation\<close>

lemma upper_char_cases:
  "upper_char c = c \<or> upper_char c \<in> set (''ABCDEFGHIJKLMNOPQRSTUVWXYZ'' @ latin1_capital)"
  unfolding upper_char_def
  by (auto split: option.splits dest!: map_of_SomeD set_zip_rightD)

lemma capitals_fixed:
  "list_all (\<lambda>u. upper_char u = u) (''ABCDEFGHIJKLMNOPQRSTUVWXYZ'' @ latin1_capital)"
  by code_simp

lemma capitals_plain:
  "list_all (\<lambda>u. u \<noteq> CHR ''#'' \<and> u \<noteq> CHR 0xDF) (''ABCDEFGHIJKLMNOPQRSTUVWXYZ'' @ latin1_capital)"
  by code_simp

lemma upper_char_fixed_points:
  "upper_char (CHR ''#'') = CHR ''#''" "upper_char (CHR 0xDF) = CHR 0xDF"
  "upper_char (CHR ''S'') = CHR ''S''"
  by code_simp+

lemma upper_char_idem: "upper_char (upper_char c) = upper_char c"
proof (cases "upper_char c = c")
  case True
  then show ?thesis by simp
next
  case False
  with upper_char_cases [of c]
  have "upper_char c \<in> set (''ABCDEFGHIJKLMNOPQRSTUVWXYZ'' @ latin1_capital)" by blast
  with capitals_fixed show ?thesis
    unfolding list_all_iff by blast
qed

lemma upper_char_hash: "upper_char c = CHR ''#'' \<longleftrightarrow> c = CHR ''#''"
proof
  assume h: "upper_char c = CHR ''#''"
  show "c = CHR ''#''"
  proof (cases "upper_char c = c")
    case True
    with h show ?thesis by simp
  next
    case False
    with upper_char_cases [of c]
    have "upper_char c \<in> set (''ABCDEFGHIJKLMNOPQRSTUVWXYZ'' @ latin1_capital)" by blast
    with capitals_plain have "upper_char c \<noteq> CHR ''#''"
      unfolding list_all_iff by blast
    with h show ?thesis by simp
  qed
next
  assume "c = CHR ''#''"
  then show "upper_char c = CHR ''#''" by (simp only: upper_char_fixed_points)
qed

lemma upper_char_sharp: "upper_char c = CHR 0xDF \<longleftrightarrow> c = CHR 0xDF"
proof
  assume h: "upper_char c = CHR 0xDF"
  show "c = CHR 0xDF"
  proof (cases "upper_char c = c")
    case True
    with h show ?thesis by simp
  next
    case False
    with upper_char_cases [of c]
    have "upper_char c \<in> set (''ABCDEFGHIJKLMNOPQRSTUVWXYZ'' @ latin1_capital)" by blast
    with capitals_plain have "upper_char c \<noteq> CHR 0xDF"
      unfolding list_all_iff by blast
    with h show ?thesis by simp
  qed
next
  assume "c = CHR 0xDF"
  then show "upper_char c = CHR 0xDF" by (simp only: upper_char_fixed_points)
qed

lemma upper_units_capital: "d \<in> set (upper_units c) \<Longrightarrow> upper_units d = [d]"
proof (cases "c = CHR 0xDF")
  case True
  assume "d \<in> set (upper_units c)"
  with True have "d = CHR ''S''" by (simp add: upper_units_def)
  then show ?thesis
    by (simp add: upper_units_def upper_char_fixed_points)
next
  case False
  assume "d \<in> set (upper_units c)"
  with False have d: "d = upper_char c" by (simp add: upper_units_def)
  with False have "d \<noteq> CHR 0xDF" by (simp add: upper_char_sharp)
  then show ?thesis by (simp add: upper_units_def d upper_char_idem)
qed

lemma upper_units_hash: "d \<in> set (upper_units c) \<Longrightarrow> c \<noteq> CHR ''#'' \<Longrightarrow> d \<noteq> CHR ''#''"
  by (cases "c = CHR 0xDF") (auto simp: upper_units_def upper_char_hash)

lemma upper_units_of_hash: "upper_units (CHR ''#'') = ''#''"
  by (simp add: upper_units_def upper_char_fixed_points)

lemma toUpperCase_capital: "list_all (\<lambda>d. upper_units d = [d]) (toUpperCase s)"
  by (auto simp: toUpperCase_def list_all_iff dest: upper_units_capital)

lemma capital_fixed: "list_all (\<lambda>d. upper_units d = [d]) s \<Longrightarrow> toUpperCase s = s"
  by (induction s) (simp_all add: toUpperCase_def)

lemma toUpperCase_idem: "toUpperCase (toUpperCase s) = toUpperCase s"
  by (rule capital_fixed) (rule toUpperCase_capital)

lemma trim_no_space: "\<forall>c\<in>set s. \<not> is_space c \<Longrightarrow> trim s = s"
proof -
  assume a: "\<forall>c\<in>set s. \<not> is_space c"
  then have 1: "dropWhile is_space s = s"
    by (cases s) simp_all
  from a have "dropWhile is_space (rev s) = rev s"
    by (cases "rev s") (simp, metis dropWhile.simps(2) list.set_intros(1) set_rev)
  with 1 show ?thesis by (simp add: trim_def)
qed

lemma list_all_tl: "list_all P s \<Longrightarrow> list_all P (tl s)"
  by (cases s) simp_all

lemma list_all_take: "list_all P s \<Longrightarrow> list_all P (take n s)"
  by (auto simp: list_all_iff dest: in_set_takeD)

lemma normalizeColor_upper: "toUpperCase (normalizeColor x) = normalizeColor x"
proof -
  let ?cap = "\<lambda>d. upper_units d = [d]"
  have "list_all ?cap (toUpperCase (trim x))" by (rule toUpperCase_capital)
  then have "list_all ?cap (strip_leading_hash (toUpperCase (trim x)))"
    by (simp add: strip_leading_hash_def list_all_tl)
  then have n: "list_all ?cap (remove_whitespace (strip_leading_hash (toUpperCase (trim x))))"
    by (simp add: remove_whitespace_def list_all_iff)
  then have "list_all ?cap
      (take 6 (remove_whitespace (strip_leading_hash (toUpperCase (trim x)))))"
    by (rule list_all_take)
  with n have "list_all ?cap (normalizeColor x)"
    by (simp add: normalizeColor_def Let_def)
  then show ?thesis by (rule capital_fixed)
qed

lemma normalizeColor_no_space: "list_all (\<lambda>c. \<not> is_space c) (normalizeColor x)"
proof -
  have "set (take 6 (remove_whitespace s)) \<subseteq> set (remove_whitespace s)" for s
    by (rule set_take_subset)
  then show ?thesis
    by (auto simp: normalizeColor_def Let_def list_all_iff remove_whitespace_def)
qed

lemma normalizeColor_length: "length (normalizeColor x) < 8"
  by (simp add: normalizeColor_def Let_def)

lemma normalizeColor_fixed:
  assumes "\<not> startsWith (normalizeColor x) ''#''"
  shows "normalizeColor (normalizeColor x) = normalizeColor x"
proof -
  let ?r = "normalizeColor x"
  have ns: "\<forall>c\<in>set ?r. \<not> is_space c"
    using normalizeColor_no_space [of x] by (simp add: list_all_iff)
  have 1: "trim ?r = ?r" using ns by (rule trim_no_space)
  have 2: "strip_leading_hash ?r = ?r"
    using assms by (cases ?r) (simp_all add: strip_leading_hash_def startsWith_def)
  have 3: "remove_whitespace ?r = ?r"
    using ns by (simp add: remove_whitespace_def)
  have "normalizeColor ?r =
          (let n = remove_whitespace (strip_leading_hash (toUpperCase (trim ?r)))
           in if length n \<ge> 8 then take 6 n else n)"
    by (simp only: normalizeColor_def [of ?r])
  also have "\<dots> = ?r"
    using normalizeColor_length [of x] by (simp add: 1 2 3 normalizeColor_upper Let_def)
  finally show ?thesis .
qed

lemma strip_hash_upper:
  "strip_leading_hash (toUpperCase s) = toUpperCase (strip_leading_hash s)"
proof (cases s)
  case Nil
  then show ?thesis by (simp add: strip_leading_hash_def toUpperCase_def)
next
  case (Cons c r)
  have up: "toUpperCase (c # r) = upper_units c @ toUpperCase r"
    by (simp add: toUpperCase_def)
  show ?thesis
  proof (cases "c = CHR ''#''")
    case True
    with Cons up show ?thesis
      by (simp add: strip_leading_hash_def upper_units_of_hash)
  next
    case False
    obtain d ds where u: "upper_units c = d # ds"
      by (cases "upper_units c") (auto simp: upper_units_def split: if_splits)
    then have "d \<in> set (upper_units c)" by simp
    from upper_units_hash [OF this False] have "d \<noteq> CHR ''#''" .
    with Cons up u False show ?thesis
      by (simp add: strip_leading_hash_def)
  qed
qed

lemma hex_digit_not_hash: "is_hex_digit c \<Longrightarrow> c \<noteq> CHR ''#''"
  by (auto simp: is_hex_digit_def)

lemma hex_color_no_hash:
  assumes "is_hex_color x"
  shows "\<not> startsWith (normalizeColor x) ''#''"
proof -
  let ?t = "strip_leading_hash (trim x)"
  let ?n = "remove_whitespace (toUpperCase ?t)"
  from assms have "\<forall>c\<in>set ?t. is_hex_digit c"
    by (simp add: is_hex_color_def list_all_iff)
  then have "\<forall>c\<in>set ?t. c \<noteq> CHR ''#''"
    by (auto dest: hex_digit_not_hash)
  then have "\<forall>c\<in>set (toUpperCase ?t). c \<noteq> CHR ''#''"
    by (auto simp: toUpperCase_def dest: upper_units_hash)
  then have n: "\<forall>c\<in>set ?n. c \<noteq> CHR ''#''"
    by (simp add: remove_whitespace_def)
  then have "\<forall>c\<in>set (take 6 ?n). c \<noteq> CHR ''#''"
    by (auto dest: in_set_takeD)
  with n have "\<forall>c\<in>set (normalizeColor x). c \<noteq> CHR ''#''"
    by (simp add: normalizeColor_def Let_def strip_hash_upper)
  then show ?thesis
    by (cases "normalizeColor x") (simp_all add: startsWith_def)
qed

text \<open>
  Claim C4. Colour normalisation is idempotent on hex colour strings: six digits, eight
  digits with alpha, lower case, with or without the leading \<^verbatim>\<open>#\<close>, with white space
  around.
\<close>

theorem normalizeColor_idempotent:
  "is_hex_color x \<Longrightarrow> normalizeColor (normalizeColor x) = normalizeColor x"
  by (rule normalizeColor_fixed) (rule hex_color_no_hash)

theorem normalizeColor_idempotent_witness:
  "is_hex_color '' #ff0000ff ''
   \<and> normalizeColor '' #ff0000ff '' = ''FF0000''
   \<and> normalizeColor (normalizeColor '' #ff0000ff '') = normalizeColor '' #ff0000ff ''"
proof -
  have h: "is_hex_color '' #ff0000ff ''" by code_simp
  have v: "normalizeColor '' #ff0000ff '' = ''FF0000''" by code_simp
  from normalizeColor_idempotent [OF h] h v show ?thesis by simp
qed

text \<open>
  Outside the hex colour strings the second pass can still change the text: only one
  leading \<^verbatim>\<open>#\<close> is removed per pass.
\<close>

lemma normalizeColor_double_hash:
  "normalizeColor ''##FF0000'' = ''#FF0000'' \<and> normalizeColor ''#FF0000'' = ''FF0000''"
  by code_simp

section \<open>Properties of the filament profile parser\<close>

text \<open>The profile the loop builds for one used slot.\<close>

lemma build_profiles_ok:
  "\<forall>s\<in>set slots. s - 1 < int (length (filamentTypes st)) \<Longrightarrow>
   \<exists>new. build_profiles st slots pa ma = Inr (pa @ new, ma @ map (\<lambda>s. s - 1) slots)
      \<and> map slotNumber new = slots
      \<and> map trayId new = map (\<lambda>s. s - 1) slots
      \<and> map index new = map (\<lambda>s. s - 1) slots"
proof (induction slots arbitrary: pa ma)
  case Nil
  then show ?case by simp
next
  case (Cons s slots)
  let ?p = "\<lparr>index = s - 1,
             type = at_or (filamentTypes st) (s - 1) ''UNKNOWN'',
             colour = at_or (filamentColours st) (s - 1) ''#FFFFFF'',
             name = at_or (filamentNames st) (s - 1) ''Unknown Profile'',
             slotNumber = s, trayId = s - 1\<rparr>"
  from Cons.prems have rest: "\<forall>s\<in>set slots. s - 1 < int (length (filamentTypes st))"
    and s: "s - 1 < int (length (filamentTypes st))" by simp_all
  from Cons.IH [OF rest, of "pa @ [?p]" "ma @ [s - 1]"] obtain new where
    new: "build_profiles st slots (pa @ [?p]) (ma @ [s - 1])
            = Inr ((pa @ [?p]) @ new, (ma @ [s - 1]) @ map (\<lambda>s. s - 1) slots)"
      "map slotNumber new = slots" "map trayId new = map (\<lambda>s. s - 1) slots"
      "map index new = map (\<lambda>s. s - 1) slots"
    by blast
  have "build_profiles st (s # slots) pa ma = build_profiles st slots (pa @ [?p]) (ma @ [s - 1])"
    using s by (simp add: Let_def)
  with new show ?case
    by (intro exI [of _ "?p # new"]) (simp del: build_profiles.simps)
qed

lemma build_profiles_out_of_range:
  "slots = pre @ s # post \<Longrightarrow>
   \<forall>x\<in>set pre. x - 1 < int (length (filamentTypes st)) \<Longrightarrow>
   s - 1 \<ge> int (length (filamentTypes st)) \<Longrightarrow>
   build_profiles st slots pa ma =
     Inl (invalid_profile_index (s - 1) s (length (filamentTypes st)))"
proof (induction pre arbitrary: slots pa ma)
  case Nil
  then show ?case by (simp add: Let_def)
next
  case (Cons x pre)
  from Cons.prems have x: "x - 1 < int (length (filamentTypes st))" by simp
  from Cons.prems have slots: "slots = x # (pre @ s # post)" by simp
  show ?case
    unfolding slots using x Cons.prems(2,3)
    by (simp add: Let_def Cons.IH [OF refl])
qed

lemma first_out_of_range:
  "\<exists>s\<in>set slots. s - 1 \<ge> int n \<Longrightarrow>
   \<exists>pre s post. slots = pre @ s # post \<and> (\<forall>x\<in>set pre. x - 1 < int n) \<and> s - 1 \<ge> int n"
proof (induction slots)
  case Nil
  then show ?case by simp
next
  case (Cons a slots)
  show ?case
  proof (cases "a - 1 \<ge> int n")
    case True
    then show ?thesis by (intro exI [of _ "[]"] exI [of _ a] exI [of _ slots]) simp
  next
    case False
    with Cons.prems have "\<exists>s\<in>set slots. s - 1 \<ge> int n" by auto
    from Cons.IH [OF this] obtain pre s post where
      "slots = pre @ s # post" "\<forall>x\<in>set pre. x - 1 < int n" "s - 1 \<ge> int n" by blast
    with False show ?thesis
      by (intro exI [of _ "a # pre"] exI [of _ s] exI [of _ post]) simp
  qed
qed

text \<open>What the loop over the used slots makes of a header that was read.\<close>

lemma used_slots_of_scan:
  assumes "map_of es ''Metadata/plate_1.gcode'' = Some g"
    and "scan_lines empty_scan (header_lines g) = Inr st"
    and "slotsUsed st = [1, 2]"
    and "length (filamentTypes st) = 5"
  shows "\<exists>r. parseFromBuffer (Entries es) = Inr r
           \<and> length (profiles r) = 2
           \<and> detectedMapping r = [0, 1]
           \<and> totalEmbedded r = 5
           \<and> map slotNumber (profiles r) = [1, 2]
           \<and> map trayId (profiles r) = [0, 1]"
proof -
  have "\<forall>s\<in>set (slotsUsed st). s - 1 < int (length (filamentTypes st))"
    using assms(3,4) by simp
  from build_profiles_ok [OF this, of "[]" "[]"] obtain new where
    new: "build_profiles st (slotsUsed st) [] [] = Inr (new, map (\<lambda>s. s - 1) (slotsUsed st))"
      "map slotNumber new = slotsUsed st" "map trayId new = map (\<lambda>s. s - 1) (slotsUsed st)"
    by auto
  have len: "length new = 2"
    using new(2) assms(3) by (metis length_map length_Cons list.size(3) numeral_2_eq_2)
  have "parseGcodeHeader g =
          Inr \<lparr>profiles = new, detectedMapping = map (\<lambda>s. s - 1) (slotsUsed st),
               totalEmbedded = length (filamentTypes st)\<rparr>"
    using assms(2,3,4) new(1) by (simp add: parseGcodeHeader_def)
  then show ?thesis
    using assms len new by (simp add: parseFromBuffer_def)
qed

lemma two_of_five_scan:
  "scan_lines empty_scan (header_lines two_of_five_gcode) =
     Inr \<lparr>slotsUsed = [1, 2],
          filamentTypes = [''PETG'', ''PETG'', ''PLA'', ''PLA'', ''TPU''],
          filamentColours = [''#515151'', ''#000000'', ''#68724D'', ''#042F56'', ''#2850E0''],
          filamentNames = [''Bambu PETG HF @BBL X1C'', ''Bambu PETG HF @BBL X1C'',
             ''Bambu PLA Matte @BBL X1C'', ''Bambu PLA Matte @BBL X1C'', ''Polymaker TPU 95A'']\<rparr>"
  by code_simp

lemma slot_of_Inr: "slot_of s = Inr n \<longleftrightarrow> parseInt10 s = Num n \<and> 1 \<le> n \<and> n \<le> 4"
  by (auto simp: slot_of_def split: number.splits)

lemma slot_of_Inl:
  \<open>slot_of s = Inl e \<longleftrightarrow>
     (parseInt10 s = NaN \<or> (\<exists>n. parseInt10 s = Num n \<and> (n < 1 \<or> 4 < n)))
     \<and> e = invalid_slot_number s\<close>
  by (auto simp: slot_of_def split: number.splits)

lemma map_slots_invalid:
  "s \<in> set ss \<Longrightarrow> slot_of s = Inl e \<Longrightarrow>
   \<exists>s'\<in>set ss. map_slots ss = Inl (invalid_slot_number s')"
proof (induction ss)
  case Nil
  then show ?case by simp
next
  case (Cons a ss)
  show ?case
  proof (cases "slot_of a")
    case (Inl e')
    then have "e' = invalid_slot_number a" by (simp add: slot_of_Inl)
    with Inl have "map_slots (a # ss) = Inl (invalid_slot_number a)" by simp
    then show ?thesis by (intro bexI [of _ a]) simp_all
  next
    case (Inr n)
    with Cons.prems have "s \<in> set ss" by auto
    from Cons.IH [OF this Cons.prems(2)] obtain s' where
      s': "s' \<in> set ss" "map_slots ss = Inl (invalid_slot_number s')" by blast
    with Inr have "map_slots (a # ss) = Inl (invalid_slot_number s')" by simp
    with s'(1) show ?thesis by (intro bexI [of _ s']) simp_all
  qed
qed

text \<open>The entries of a slot-usage value that reach \<^verbatim>\<open>parseInt\<close>.\<close>

lemma parseSlotUsage_invalid:
  \<open>s \<in> set (filter (\<lambda>s. s \<noteq> []) (map trim (split_on CHR '','' v))) \<Longrightarrow>
   slot_of s = Inl e \<Longrightarrow>
   \<exists>s'. parseSlotUsage v =
      Inl (invalid_slot_number s')\<close>
proof -
  assume a: "s \<in> set (filter (\<lambda>s. s \<noteq> []) (map trim (split_on CHR '','' v)))"
    and b: "slot_of s = Inl e"
  from map_slots_invalid [OF a b] show ?thesis
    by (auto simp: parseSlotUsage_def)
qed

lemma parseSlotUsage_Inr:
  "parseSlotUsage v = Inr slots \<Longrightarrow> slots \<noteq> [] \<and> (\<forall>n\<in>set slots. 1 \<le> n \<and> n \<le> 4)"
proof -
  have *: "map_slots ss = Inr ns \<Longrightarrow> \<forall>n\<in>set ns. 1 \<le> n \<and> n \<le> 4" for ss ns
    by (induction ss arbitrary: ns) (auto split: sum.splits simp: slot_of_Inr)
  assume "parseSlotUsage v = Inr slots"
  then show ?thesis
    by (auto simp: parseSlotUsage_def split: sum.splits if_splits dest!: *)
qed

lemma scan_lines_append:
  "scan_lines st (a @ b) =
     (case scan_lines st a of Inl e \<Rightarrow> Inl e | Inr st' \<Rightarrow> scan_lines st' b)"
  by (induction a arbitrary: st) (auto split: sum.splits)

text \<open>
  A slot-usage line of the header with an entry that \<^verbatim>\<open>parseInt\<close> reads as \<^verbatim>\<open>NaN\<close> or as a
  number outside 1..4 ends the parse with the invalid-slot-number error, when the lines
  before it were read without an error.
\<close>

lemma invalid_slot_number_rejected:
  assumes "header_lines g = pre @ line # post"
    and "scan_lines empty_scan pre = Inr st"
    and "startsWith line '';''" and "startsWith (trim (drop 1 line)) ''filament:''"
    and "s \<in> set (filter (\<lambda>s. s \<noteq> [])
            (map trim (split_on CHR '','' (trim (drop (length ''filament:'') (trim (drop 1 line)))))))"
    and "parseInt10 s = NaN \<or> (\<exists>n. parseInt10 s = Num n \<and> (n < 1 \<or> 4 < n))"
  shows \<open>\<exists>s'. parseGcodeHeader g =
      Inl (invalid_slot_number s')\<close>
proof -
  from assms(6) obtain e where "slot_of s = Inl e" by (auto simp: slot_of_Inl)
  from parseSlotUsage_invalid [OF assms(5) this] obtain s' where
    s': \<open>parseSlotUsage (trim (drop (length ''filament:'') (trim (drop 1 line)))) =
      Inl (invalid_slot_number s')\<close>
    by blast
  have "header_line st line =
      Inl (invalid_slot_number s')"
    using assms(3,4) s' by (simp add: header_line_def Let_def)
  then have "scan_lines empty_scan (header_lines g) =
      Inl (invalid_slot_number s')"
    using assms(1,2) by (simp add: scan_lines_append)
  then show ?thesis
    by (auto simp: parseGcodeHeader_def)
qed

text \<open>
  A used slot beyond the type list ends the parse with the profile-index error of the
  first such slot, when the header was read without an error and has a type list.
\<close>

lemma profile_index_out_of_range:
  assumes "scan_lines empty_scan (header_lines g) = Inr st"
    and "filamentTypes st \<noteq> []"
    and "\<exists>s\<in>set (slotsUsed st). s - 1 \<ge> int (length (filamentTypes st))"
  shows "\<exists>s\<in>set (slotsUsed st). parseGcodeHeader g =
     Inl (invalid_profile_index (s - 1) s (length (filamentTypes st)))"
proof -
  from first_out_of_range [OF assms(3)] obtain pre s post where
    sp: "slotsUsed st = pre @ s # post"
    and pre: "\<forall>x\<in>set pre. x - 1 < int (length (filamentTypes st))"
    and s: "s - 1 \<ge> int (length (filamentTypes st))" by blast
  from build_profiles_out_of_range [OF sp pre s, of "[]" "[]"]
  have "parseGcodeHeader g =
     Inl (invalid_profile_index (s - 1) s (length (filamentTypes st)))"
    using assms(1,2) sp by (simp add: parseGcodeHeader_def)
  moreover have "s \<in> set (slotsUsed st)" using sp by simp
  ultimately show ?thesis by blast
qed

lemma header_line_slot_usage:
  "slot_usage_directive line = Some v \<Longrightarrow>
   header_line st line =
     (case parseSlotUsage v of Inl e \<Rightarrow> Inl e | Inr slots \<Rightarrow> Inr (st\<lparr>slotsUsed := slots\<rparr>))"
  by (auto simp: slot_usage_directive_def header_line_def Let_def split: if_splits)

lemma header_line_no_slot_usage:
  "slot_usage_directive line = None \<Longrightarrow>
   \<exists>st'. header_line st line = Inr st' \<and> slotsUsed st' = slotsUsed st"
  by (auto simp: slot_usage_directive_def header_line_def Let_def split: if_splits)

lemma header_line_type_list:
  "type_list_directive line = Some ts \<Longrightarrow> header_line st line = Inr (st\<lparr>filamentTypes := ts\<rparr>)"
  by (auto simp: type_list_directive_def header_line_def Let_def split: if_splits)

lemma header_line_no_type_list:
  "type_list_directive line = None \<Longrightarrow> header_line st line = Inr st' \<Longrightarrow>
   filamentTypes st' = filamentTypes st"
  by (auto simp: type_list_directive_def header_line_def Let_def split: if_splits sum.splits)

lemma scan_no_slot_usage:
  "list_all (\<lambda>l. slot_usage_directive l = None) ls \<Longrightarrow>
   \<exists>st'. scan_lines st ls = Inr st' \<and> slotsUsed st' = slotsUsed st"
proof (induction ls arbitrary: st)
  case Nil
  then show ?case by simp
next
  case (Cons l ls)
  from Cons.prems have l: "slot_usage_directive l = None"
    and ls: "list_all (\<lambda>l. slot_usage_directive l = None) ls" by simp_all
  from header_line_no_slot_usage [OF l, of st] obtain st1 where
    st1: "header_line st l = Inr st1" "slotsUsed st1 = slotsUsed st" by blast
  from Cons.IH [OF ls, of st1] obtain st' where
    "scan_lines st1 ls = Inr st'" "slotsUsed st' = slotsUsed st1" by blast
  with st1 show ?case by simp
qed

lemma scan_no_type_list:
  "list_all (\<lambda>l. type_list_directive l = None) ls \<Longrightarrow> scan_lines st ls = Inr st' \<Longrightarrow>
   filamentTypes st' = filamentTypes st"
proof (induction ls arbitrary: st)
  case Nil
  then show ?case by simp
next
  case (Cons l ls)
  from Cons.prems(1) have l: "type_list_directive l = None"
    and ls: "list_all (\<lambda>l. type_list_directive l = None) ls" by simp_all
  from Cons.prems(2) obtain st1 where
    st1: "header_line st l = Inr st1" and rest: "scan_lines st1 ls = Inr st'"
    by (auto split: sum.splits)
  from Cons.IH [OF ls rest] header_line_no_type_list [OF l st1] show ?case by simp
qed

lemma scan_single_slot_usage:
  assumes "list_all (\<lambda>l. slot_usage_directive l = None) (pre @ post)"
    and "slot_usage_directive sl = Some v" and "parseSlotUsage v = Inr slots"
  shows "\<exists>st'. scan_lines st (pre @ sl # post) = Inr st' \<and> slotsUsed st' = slots"
proof -
  from assms(1) have pre: "list_all (\<lambda>l. slot_usage_directive l = None) pre"
    and post: "list_all (\<lambda>l. slot_usage_directive l = None) post" by simp_all
  from scan_no_slot_usage [OF pre, of st] obtain st1 where
    st1: "scan_lines st pre = Inr st1" by blast
  have sl: "header_line st1 sl = Inr (st1\<lparr>slotsUsed := slots\<rparr>)"
    using header_line_slot_usage [OF assms(2), of st1] assms(3) by simp
  from scan_no_slot_usage [OF post, of "st1\<lparr>slotsUsed := slots\<rparr>"] obtain st' where
    "scan_lines (st1\<lparr>slotsUsed := slots\<rparr>) post = Inr st'" "slotsUsed st' = slots" by auto
  with st1 sl show ?thesis by (simp add: scan_lines_append)
qed

lemma scan_last_type_list:
  assumes "scan_lines st (a @ t # b) = Inr st'"
    and "type_list_directive t = Some ts"
    and "list_all (\<lambda>l. type_list_directive l = None) b"
  shows "filamentTypes st' = ts"
proof -
  from assms(1) obtain st1 where st1: "scan_lines st a = Inr st1"
    and rest: "scan_lines st1 (t # b) = Inr st'"
    by (auto simp: scan_lines_append split: sum.splits)
  from rest header_line_type_list [OF assms(2), of st1]
  have "scan_lines (st1\<lparr>filamentTypes := ts\<rparr>) b = Inr st'" by simp
  from scan_no_type_list [OF assms(3) this] show ?thesis by simp
qed

lemma parse_one_two: "parseSlotUsage ''1,2'' = Inr [1, 2]"
  by code_simp

text \<open>
  Claim C6. One profile per material used, not per material embedded: for every sliced
  file whose header (the first 500 lines of the instruction entry) has one slot-usage
  directive, \<^verbatim>\<open>; filament: 1,2\<close>, and whose last per-material type directive lists five
  entries, the Extractor returns exactly two profiles, for slots 1 and 2, with
  \<^verbatim>\<open>detectedMapping = [0, 1]\<close> (each tray id the slot number less one) and
  \<^verbatim>\<open>totalEmbedded = 5\<close>.
\<close>

theorem used_slots_only:
  assumes "map_of es ''Metadata/plate_1.gcode'' = Some g"
    and "header_lines g = pre @ sl # post"
    and "list_all (\<lambda>l. slot_usage_directive l = None) (pre @ post)"
    and "slot_usage_directive sl = Some ''1,2''"
    and "header_lines g = a @ t # b"
    and "type_list_directive t = Some ts" and "length ts = 5"
    and "list_all (\<lambda>l. type_list_directive l = None) b"
  shows "\<exists>r. parseFromBuffer (Entries es) = Inr r
           \<and> length (profiles r) = 2
           \<and> detectedMapping r = [0, 1]
           \<and> totalEmbedded r = 5
           \<and> map slotNumber (profiles r) = [1, 2]
           \<and> map trayId (profiles r) = [0, 1]"
proof -
  from scan_single_slot_usage [OF assms(3,4) parse_one_two, of empty_scan] assms(2)
  obtain st where st: "scan_lines empty_scan (header_lines g) = Inr st"
    and slots: "slotsUsed st = [1, 2]" by auto
  from st assms(5) have "scan_lines empty_scan (a @ t # b) = Inr st" by simp
  from scan_last_type_list [OF this assms(6,8)] assms(7)
  have types: "length (filamentTypes st) = 5" by simp
  from used_slots_of_scan [OF assms(1) st slots types] show ?thesis .
qed

theorem used_slots_only_witness:
  "header_lines two_of_five_gcode
     = [''; HEADER_BLOCK_START'', ''; BambuStudio 02.03.00.70'']
       @ ''; filament: 1,2''
       # drop 3 (header_lines two_of_five_gcode)
   \<and> list_all (\<lambda>l. slot_usage_directive l = None)
        ([''; HEADER_BLOCK_START'', ''; BambuStudio 02.03.00.70'']
         @ drop 3 (header_lines two_of_five_gcode))
   \<and> slot_usage_directive ''; filament: 1,2'' = Some ''1,2''
   \<and> header_lines two_of_five_gcode
     = take 8 (header_lines two_of_five_gcode)
       @ ''; filament_type = PETG;PETG;PLA;PLA;TPU''
       # [''; filament_settings_id = \"Bambu PETG HF @BBL X1C\";\"Bambu PETG HF @BBL X1C\";\"Bambu PLA Matte @BBL X1C\";\"Bambu PLA Matte @BBL X1C\";\"Polymaker TPU 95A\"'',
          ''; CONFIG_BLOCK_END'']
   \<and> type_list_directive ''; filament_type = PETG;PETG;PLA;PLA;TPU''
       = Some [''PETG'', ''PETG'', ''PLA'', ''PLA'', ''TPU'']
   \<and> (\<exists>r. parseFromBuffer (createMock3MF two_of_five_gcode) = Inr r
          \<and> length (profiles r) = 2
          \<and> detectedMapping r = [0, 1]
          \<and> totalEmbedded r = 5
          \<and> map slotNumber (profiles r) = [1, 2]
          \<and> map trayId (profiles r) = [0, 1])"
proof -
  have h1: "map_of [(''Metadata/plate_1.gcode'', two_of_five_gcode)] ''Metadata/plate_1.gcode''
     = Some two_of_five_gcode" by simp
  have h2: "header_lines two_of_five_gcode
     = [''; HEADER_BLOCK_START'', ''; BambuStudio 02.03.00.70'']
       @ ''; filament: 1,2''
       # drop 3 (header_lines two_of_five_gcode)" by code_simp
  have h3: "list_all (\<lambda>l. slot_usage_directive l = None)
        ([''; HEADER_BLOCK_START'', ''; BambuStudio 02.03.00.70'']
         @ drop 3 (header_lines two_of_five_gcode))" by code_simp
  have h4: "slot_usage_directive ''; filament: 1,2'' = Some ''1,2''" by code_simp
  have h5: "header_lines two_of_five_gcode
     = take 8 (header_lines two_of_five_gcode)
       @ ''; filament_type = PETG;PETG;PLA;PLA;TPU''
       # [''; filament_settings_id = \"Bambu PETG HF @BBL X1C\";\"Bambu PETG HF @BBL X1C\";\"Bambu PLA Matte @BBL X1C\";\"Bambu PLA Matte @BBL X1C\";\"Polymaker TPU 95A\"'',
          ''; CONFIG_BLOCK_END'']" by code_simp
  have h6: "type_list_directive ''; filament_type = PETG;PETG;PLA;PLA;TPU''
       = Some [''PETG'', ''PETG'', ''PLA'', ''PLA'', ''TPU'']" by code_simp
  have h7: "length [''PETG'', ''PETG'', ''PLA'', ''PLA'', ''TPU''] = 5" by simp
  have h8: "list_all (\<lambda>l. type_list_directive l = None)
       [''; filament_settings_id = \"Bambu PETG HF @BBL X1C\";\"Bambu PETG HF @BBL X1C\";\"Bambu PLA Matte @BBL X1C\";\"Bambu PLA Matte @BBL X1C\";\"Polymaker TPU 95A\"'',
          ''; CONFIG_BLOCK_END'']" by code_simp
  from used_slots_only [OF h1 h2 h3 h4 h5 h6 h7 h8]
  have "\<exists>r. parseFromBuffer (createMock3MF two_of_five_gcode) = Inr r
          \<and> length (profiles r) = 2
          \<and> detectedMapping r = [0, 1]
          \<and> totalEmbedded r = 5
          \<and> map slotNumber (profiles r) = [1, 2]
          \<and> map trayId (profiles r) = [0, 1]"
    by (simp only: createMock3MF_def)
  with h2 h3 h4 h5 h6 show ?thesis by blast
qed

text \<open>The parser's own tests on the headers above.\<close>

lemma two_of_five_parse:
  "parseFromBuffer (createMock3MF two_of_five_gcode) =
     Inr \<lparr>profiles =
            [\<lparr>index = 0, type = ''PETG'', colour = ''#515151'',
              name = ''Bambu PETG HF @BBL X1C'', slotNumber = 1, trayId = 0\<rparr>,
             \<lparr>index = 1, type = ''PETG'', colour = ''#000000'',
              name = ''Bambu PETG HF @BBL X1C'', slotNumber = 2, trayId = 1\<rparr>],
          detectedMapping = [0, 1], totalEmbedded = 5\<rparr>"
  by code_simp

lemma slot_five_rejected:
  \<open>parseFromBuffer (createMock3MF slot_five_gcode) =
     Inl (Error ''Invalid AMS slot number: "5". Must be 1-4 for A1 series.'')\<close>
  by code_simp

lemma slot_four_of_two_rejected:
  "parseFromBuffer (createMock3MF slot_four_of_two_gcode) =
     Inl (Error ''Invalid profile index 3 for slot 4. Only 2 profiles embedded in file.'')"
  by code_simp

text \<open>
  Claim C7. A slot-usage value that is not an integer in 1..4 must end the parse with
  the invalid-slot-number error. The value \<^verbatim>\<open>1.5\<close> of the header line
  \<^verbatim>\<open>; filament: 1.5\<close> is no integer, and the Extractor does not fail on it:
  \<^verbatim>\<open>parseInt\<close> reads the leading \<^verbatim>\<open>1\<close> and drops the rest, the range check passes, and
  a profile list for slot 1 comes back.
\<close>

theorem fractional_slot_accepted:
  "parseFromBuffer (createMock3MF fractional_slot_gcode) =
     Inr \<lparr>profiles =
            [\<lparr>index = 0, type = ''PLA'', colour = ''#FF0000'',
              name = ''Unknown Profile'', slotNumber = 1, trayId = 0\<rparr>],
          detectedMapping = [0], totalEmbedded = 2\<rparr>"
  by code_simp

section \<open>Properties of the retry helper\<close>

text \<open>
  The loop ends at the first call that does not fail with a retryable error, when that
  call is within the bound: it returns or throws what that call did, and before retry \<open>i\<close>
  it has slept \<^verbatim>\<open>min(initialDelay * backoffMultiplier^(i-1), maxDelay)\<close>.
\<close>

lemma retry_loop_stops:
  assumes "attempt + int k \<le> nullish (maxRetries options) MAX_RETRIES"
    and "\<forall>j<k. \<exists>e. fn (calls + j) = Inl e \<and> isRetryableError e"
    and "\<forall>e. fn (calls + k) = Inl e \<longrightarrow> \<not> isRetryableError e"
  shows "outcome (conditional_retry_loop fn options attempt calls slept) = fn (calls + k)
       \<and> invocations (conditional_retry_loop fn options attempt calls slept) = calls + k + 1
       \<and> map (\<lambda>(i, e, d). (i, d)) (sleeps (conditional_retry_loop fn options attempt calls slept))
           = map (\<lambda>(i, e, d). (i, d)) slept
             @ map (\<lambda>i. (i, retry_delay options i)) [attempt + 1 .. attempt + int k]"
  using assms
proof (induction k arbitrary: attempt calls slept)
  case 0
  then show ?case
    by (cases "fn calls")
       (simp_all add: conditional_retry_loop.simps [of fn options attempt calls])
next
  case (Suc k)
  let ?M = "nullish (maxRetries options) MAX_RETRIES"
  from Suc.prems(2) obtain err where err: "fn calls = Inl err" "isRetryableError err"
    by force
  from Suc.prems(1) have le: "attempt + 1 \<le> ?M" by simp
  have step: "conditional_retry_loop fn options attempt calls slept
          = conditional_retry_loop fn options (attempt + 1) (calls + 1)
              (slept @ [(attempt + 1, err, retry_delay options (attempt + 1))])"
    using err le by (simp add: conditional_retry_loop.simps [of fn options attempt calls])
  have bound: "attempt + 1 + int k \<le> ?M"
    using Suc.prems(1) by simp
  have before: "\<forall>j<k. \<exists>e. fn (calls + 1 + j) = Inl e \<and> isRetryableError e"
  proof (intro allI impI)
    fix j assume "j < k"
    then have "Suc j < Suc k" by simp
    with Suc.prems(2) have "\<exists>e. fn (calls + Suc j) = Inl e \<and> isRetryableError e" by blast
    then show "\<exists>e. fn (calls + 1 + j) = Inl e \<and> isRetryableError e" by simp
  qed
  have last: "\<forall>e. fn (calls + 1 + k) = Inl e \<longrightarrow> \<not> isRetryableError e"
    using Suc.prems(3) by simp
  have up: "[attempt + 1 .. attempt + int (Suc k)]
              = (attempt + 1) # [attempt + 1 + 1 .. attempt + 1 + int k]"
    by (simp add: upto_rec1 add.commute add.left_commute)
  from Suc.IH [OF bound before last]
  show ?case
    unfolding step up by simp
qed

lemma retry_stops_at_unclassified_error:
  assumes "int k \<le> nullish (maxRetries options) MAX_RETRIES"
    and "\<forall>j<k. \<exists>e'. fn j = Inl e' \<and> isRetryableError e'"
    and "fn k = Inl e" and "\<not> isRetryableError e"
  shows "outcome (withConditionalRetry fn options) = Inl e
       \<and> invocations (withConditionalRetry fn options) = k + 1
       \<and> map (\<lambda>(i, e', d). (i, d)) (sleeps (withConditionalRetry fn options))
           = map (\<lambda>i. (i, retry_delay options i)) [1 .. int k]"
proof -
  have 1: "0 + int k \<le> nullish (maxRetries options) MAX_RETRIES"
    using assms(1) by simp
  have 2: "\<forall>j<k. \<exists>e. fn (0 + j) = Inl e \<and> isRetryableError e"
    using assms(2) by simp
  have 3: "\<forall>e'. fn (0 + k) = Inl e' \<longrightarrow> \<not> isRetryableError e'"
    using assms(3, 4) by simp
  from retry_loop_stops [OF 1 2 3, of "[]"] assms(3) show ?thesis
    by (simp add: withConditionalRetry_def)
qed

lemma retry_returns_first_success:
  assumes "int k \<le> nullish (maxRetries options) MAX_RETRIES"
    and "\<forall>j<k. \<exists>e'. fn j = Inl e' \<and> isRetryableError e'"
    and "fn k = Inr v"
  shows "outcome (withConditionalRetry fn options) = Inr v
       \<and> invocations (withConditionalRetry fn options) = k + 1"
proof -
  have 1: "0 + int k \<le> nullish (maxRetries options) MAX_RETRIES"
    using assms(1) by simp
  have 2: "\<forall>j<k. \<exists>e. fn (0 + j) = Inl e \<and> isRetryableError e"
    using assms(2) by simp
  have 3: "\<forall>e'. fn (0 + k) = Inl e' \<longrightarrow> \<not> isRetryableError e'"
    using assms(3) by simp
  from retry_loop_stops [OF 1 2 3, of "[]"] assms(3) show ?thesis
    by (simp add: withConditionalRetry_def)
qed

lemma retry_loop_exhausts:
  assumes "a \<le> nullish (maxRetries options) MAX_RETRIES"
    and "\<forall>j. c \<le> j \<and> j \<le> c + nat (nullish (maxRetries options) MAX_RETRIES - a)
           \<longrightarrow> (\<exists>e. fn j = Inl e \<and> isRetryableError e)"
  shows "outcome (conditional_retry_loop fn options a c slept)
           = fn (c + nat (nullish (maxRetries options) MAX_RETRIES - a))
       \<and> invocations (conditional_retry_loop fn options a c slept)
           = c + nat (nullish (maxRetries options) MAX_RETRIES - a) + 1
       \<and> map (\<lambda>(k, e, d). (k, d)) (sleeps (conditional_retry_loop fn options a c slept))
           = map (\<lambda>(k, e, d). (k, d)) slept
             @ map (\<lambda>k. (k, retry_delay options k))
                 [a + 1 .. nullish (maxRetries options) MAX_RETRIES]"
  using assms
proof (induction fn options a c slept rule: conditional_retry_loop.induct)
  case (1 fn options attempt calls slept)
  let ?M = "nullish (maxRetries options) MAX_RETRIES"
  from "1.prems"(2) obtain err where err: "fn calls = Inl err" "isRetryableError err"
    by (metis le_add1 order_refl)
  show ?case
  proof (cases "attempt + 1 > ?M")
    case True
    with "1.prems"(1) have eq: "attempt = ?M" by simp
    have "conditional_retry_loop fn options attempt calls slept
            = \<lparr>outcome = Inl err, invocations = calls + 1, sleeps = slept\<rparr>"
      using err True "1.prems"(1) by (simp add: conditional_retry_loop.simps [of fn options attempt calls])
    then show ?thesis
      using err eq by simp
  next
    case False
    then have le: "attempt + 1 \<le> ?M" by simp
    have step: "conditional_retry_loop fn options attempt calls slept
            = conditional_retry_loop fn options (attempt + 1) (calls + 1)
                (slept @ [(attempt + 1, err, retry_delay options (attempt + 1))])"
      using err False "1.prems"(1) by (simp add: conditional_retry_loop.simps [of fn options attempt calls])
    have n: "calls + 1 + nat (?M - (attempt + 1)) = calls + nat (?M - attempt)"
      using le by simp
    have range: "\<forall>j. calls + 1 \<le> j \<and> j \<le> calls + 1 + nat (?M - (attempt + 1))
           \<longrightarrow> (\<exists>e. fn j = Inl e \<and> isRetryableError e)"
      using "1.prems"(2) n by auto
    have up: "[attempt + 1 .. ?M] = (attempt + 1) # [attempt + 1 + 1 .. ?M]"
      using le by (simp add: upto_rec1)
    from "1.IH" [OF "1.prems"(1) err(1) _ False le range] err(2)
    show ?thesis
      unfolding step n up by simp
  qed
qed

lemma retry_exhausts_with_backoff:
  assumes "0 \<le> nullish (maxRetries options) MAX_RETRIES"
    and "\<forall>j \<le> nat (nullish (maxRetries options) MAX_RETRIES).
           \<exists>e. fn j = Inl e \<and> isRetryableError e"
  shows "outcome (withConditionalRetry fn options)
           = fn (nat (nullish (maxRetries options) MAX_RETRIES))
       \<and> invocations (withConditionalRetry fn options)
           = nat (nullish (maxRetries options) MAX_RETRIES) + 1
       \<and> map (\<lambda>(k, e, d). (k, d)) (sleeps (withConditionalRetry fn options))
           = map (\<lambda>k. (k, retry_delay options k)) [1 .. nullish (maxRetries options) MAX_RETRIES]"
proof -
  have "\<forall>j. 0 \<le> j \<and> j \<le> 0 + nat (nullish (maxRetries options) MAX_RETRIES - 0)
           \<longrightarrow> (\<exists>e. fn j = Inl e \<and> isRetryableError e)"
    using assms(2) by simp
  from retry_loop_exhausts [OF _ this, of "[]"] assms(1) show ?thesis
    by (simp add: withConditionalRetry_def)
qed

lemma startsWith_append: "startsWith a p \<Longrightarrow> startsWith (a @ b) p"
proof -
  assume "startsWith a p"
  then have eq: "take (length p) a = p" by (simp add: startsWith_def)
  then have "length (take (length p) a) = length p" by simp
  then have "length p \<le> length a" by (simp only: length_take)
  then have "take (length p) (a @ b) = take (length p) a" by simp
  with eq show ?thesis by (simp only: startsWith_def)
qed

lemma str_includes_append: "str_includes a p \<Longrightarrow> str_includes (a @ b) p"
proof (induction a)
  case Nil
  then show ?case by (cases b) (simp_all add: startsWith_def)
next
  case (Cons c a)
  show ?case
  proof (cases "startsWith (c # a) p")
    case True
    then have "startsWith ((c # a) @ b) p" by (rule startsWith_append)
    then show ?thesis by simp
  next
    case False
    with Cons show ?thesis by simp
  qed
qed

lemma mqtt_connection_error_retryable: "isRetryableError (mqtt_connection_error msg)"
proof -
  have "str_includes (map upper_char ''MQTT connection error: '') (map upper_char ''connection'')"
    by code_simp
  then have "str_includes (map upper_char (''MQTT connection error: '' @ msg))
                (map upper_char ''connection'')"
    by (simp only: map_append str_includes_append)
  then have "test_i ''connection'' (''MQTT connection error: '' @ msg)"
    by (simp only: test_i_def)
  then show ?thesis
    by (simp add: mqtt_connection_error_def retryablePatterns_def)
qed

text \<open>The errors of the helper's own tests, and what the wrapper does with them.\<close>

lemma classification_of_test_errors:
  "isRetryableError (Error ''ECONNREFUSED'')"
  "isRetryableError (Error ''ECONNRESET'')"
  "isRetryableError (Error ''ETIMEDOUT'')"
  "isRetryableError (Error ''Connection timeout'')"
  "\<not> isRetryableError (Error ''Authentication failed'')"
  "\<not> isRetryableError (Error ''Invalid request'')"
  by code_simp+

lemma retry_policy_examples:
  "withConditionalRetry (\<lambda>k. Inl (Error ''Authentication failed'')) default_options
     = (\<lparr>outcome = Inl (Error ''Authentication failed''), invocations = 1, sleeps = []\<rparr>
          :: unit RetryRun)"
  "withConditionalRetry (\<lambda>k. if k = 0 then Inl (Error ''ECONNREFUSED'') else Inr ''success'')
       default_options
     = \<lparr>outcome = Inr ''success'', invocations = 2,
        sleeps = [(1, Error ''ECONNREFUSED'', 1000)]\<rparr>"
  "withConditionalRetry (\<lambda>k. Inl (Error ''ECONNREFUSED'')) connect_options
     = (\<lparr>outcome = Inl (Error ''ECONNREFUSED''), invocations = 3,
         sleeps = [(1, Error ''ECONNREFUSED'', 1000), (2, Error ''ECONNREFUSED'', 2000)]\<rparr>
          :: unit RetryRun)"
  "withConditionalRetry
       (\<lambda>k. if k = 0 then Inl (Error ''ECONNRESET'') else Inl (Error ''Authentication failed''))
       connect_options
     = (\<lparr>outcome = Inl (Error ''Authentication failed''), invocations = 2,
         sleeps = [(1, Error ''ECONNRESET'', 1000)]\<rparr> :: unit RetryRun)"
  by code_simp+

text \<open>
  Claim C8. The wrapper does what the claim says of an error it classifies as not
  retryable (\<open>retry_stops_at_unclassified_error\<close>: thrown at once, whichever call it comes
  from) and of errors it classifies as transient (\<open>retry_exhausts_with_backoff\<close>:
  \<^verbatim>\<open>maxRetries + 1\<close> calls, exponential delays, the last error thrown). But the claim
  names the authentication failure among the failures that are never retried, and so does
  the code: \<^verbatim>\<open>connect()\<close> documents its retry as one for transient connection failures,
  the helper's test \<^verbatim>\<open>should not retry on non-retryable errors\<close> throws
  \<^verbatim>\<open>Authentication failed\<close>, and the README lists \<^verbatim>\<open>MQTT connection error: Not authorized\<close>
  under authentication errors. The classification reads the message only. \<^verbatim>\<open>connectOnce\<close>
  reports every error of the client under the prefix \<^verbatim>\<open>MQTT connection error: \<close>, the word
  \<^verbatim>\<open>connection\<close> is a retryable pattern, and so a refused access code, an authentication
  error for \<^verbatim>\<open>ErrorHelper.isAuthError\<close>, is tried three times by \<^verbatim>\<open>connect()\<close>, with sleeps
  of 1000 and 2000 ms, before it is thrown.
\<close>

theorem connect_retries_authentication_failure:
  "isAuthError (mqtt_connection_error ''Not authorized'')
   \<and> withConditionalRetry (\<lambda>k. Inl (mqtt_connection_error ''Not authorized'')) connect_options
       = (\<lparr>outcome = Inl (mqtt_connection_error ''Not authorized''),
          invocations = 3,
          sleeps = [(1, mqtt_connection_error ''Not authorized'', 1000),
                    (2, mqtt_connection_error ''Not authorized'', 2000)]\<rparr> :: unit RetryRun)"
  by code_simp

section \<open>Properties of the command encoder\<close>

lemma commandSeqId_encode:
  "commandSeqId (fst (encode call enc)) = Some (show_nat (sequenceId enc))"
  by (cases call)
     (simp_all add: startPrint_def pausePrint_def resumePrint_def stopPrint_def print_command_def
        getPushAll_def startPushing_def stopPushing_def setLED_def sendGcode_def homeAxes_def
        setSpeed_def setChamberFan_def setPartCoolingFan_def unloadFilament_def
        loadFilament_def resumeFilamentLoad_def setBedTemperature_def
        setNozzleTemperature_def turnOffHeaters_def emergencyStop_def
        getNextSequenceId_def body_def Let_def)

lemma encoder_after_encode:
  "snd (encode call enc) = enc\<lparr>sequenceId := sequenceId enc + 1\<rparr>"
  by (cases call)
     (simp_all add: startPrint_def pausePrint_def resumePrint_def stopPrint_def print_command_def
        getPushAll_def startPushing_def stopPushing_def setLED_def sendGcode_def homeAxes_def
        setSpeed_def setChamberFan_def setPartCoolingFan_def unloadFilament_def
        loadFilament_def resumeFilamentLoad_def setBedTemperature_def
        setNozzleTemperature_def turnOffHeaters_def emergencyStop_def
        getNextSequenceId_def Let_def)

text \<open>
  Claim C9. For every command a builder of the encoder returns, the identifier that
  \<^verbatim>\<open>publishCommand\<close> reads off it by its top-level key is the identifier
  \<^verbatim>\<open>getNextSequenceId\<close> handed out for it, and the counter has moved on by that one call.
\<close>

theorem correlation_id_round_trip:
  "commandSeqId (fst (encode call enc)) = Some (fst (getNextSequenceId enc))
   \<and> snd (encode call enc) = snd (getNextSequenceId enc)"
  by (simp add: commandSeqId_encode encoder_after_encode getNextSequenceId_def)

lemma set_speed_examples:
  "map (\<lambda>v. case fst (setSpeed v new_encoder) of SystemCommand (Some b) \<Rightarrow> param b | _ \<Rightarrow> None)
     [10, 200, 100] = [Some ''50'', Some ''166'', Some ''100'']"
  by code_simp

section \<open>Properties of publishing a command\<close>

lemma await_inbounds:
  "await_response seq s (map Inbound ins @ evs) = await_response seq (receive_all s ins) evs"
  by (induction ins arbitrary: s) (simp_all add: receive_all_def)

lemma await_quiet:
  "messageBuffer s = [] \<Longrightarrow> list_all quiet pre \<Longrightarrow>
   \<exists>s'. messageBuffer s' = [] \<and> await_response seq s (pre @ evs) = await_response seq s' evs"
proof (induction pre arbitrary: s)
  case Nil
  then show ?case by auto
next
  case (Cons ev pre)
  from Cons.prems(2) have q: "quiet ev" and rest: "list_all quiet pre" by simp_all
  show ?case
  proof (cases ev)
    case (Inbound i)
    with q obtain e where i: "i = Malformed e" by (cases i) simp_all
    have "messageBuffer (on_message s i) = []" using Cons.prems(1) i by simp
    from Cons.IH [OF this rest] show ?thesis using Inbound by simp
  next
    case PollTick
    have "poll seq (messageBuffer s) = None" using Cons.prems(1) by (simp add: poll_def)
    with Cons.IH [OF Cons.prems(1) rest] PollTick show ?thesis by simp
  next
    case ResponseTimeout
    with q show ?thesis by simp
  qed
qed

lemma poll_nonempty:
  "buffer \<noteq> [] \<Longrightarrow> i \<noteq> [] \<Longrightarrow>
   poll (Some i) buffer = Some (case find (bears i) buffer of None \<Rightarrow> last buffer | Some r \<Rightarrow> r)"
  by (simp add: poll_def split: option.splits)

lemma most_recent_nonempty: "xs \<noteq> [] \<Longrightarrow> most_recent MAX_MESSAGE_BUFFER xs \<noteq> []"
proof -
  assume "xs \<noteq> []"
  then have "0 < length xs" by simp
  then have "length xs - MAX_MESSAGE_BUFFER < length xs"
    by (simp add: MAX_MESSAGE_BUFFER_def)
  then show ?thesis by (simp add: most_recent_def)
qed

lemma receive_all_cleared:
  "messageBuffer s = [] \<Longrightarrow>
   messageBuffer (receive_all s ins) = most_recent MAX_MESSAGE_BUFFER (parsed_messages ins)"
  using receive_all_buffer [of s "[]" ins] by (simp add: most_recent_def)

text \<open>
  Claim C1, as amended. Let a command with a non-empty identifier be published with
  \<^verbatim>\<open>waitForResponse = true\<close> on a connected session. The buffer is cleared; ticks of the
  poll timer that find it empty, and payloads that do not parse, change nothing. At the
  first tick that finds messages buffered the call resolves: with the first buffered
  message that bears the identifier when one is buffered at that tick, and with the most
  recent message when none is. Only the last 100 messages are buffered. When the timeout
  fires before any tick has found a message, the call fails with the command-response
  timeout, which covers the case that nothing arrives.
\<close>

theorem publishCommand_first_poll:
  assumes "commandSeqId cmd = Some i" and "i \<noteq> []" and "list_all quiet pre"
  shows "(parsed_messages ins \<noteq> [] \<longrightarrow>
           fst (publishCommand True cmd True s (pre @ map Inbound ins @ PollTick # rest))
             = Some (Inr \<lparr>success = True,
                          message = ''Command executed and response received'',
                          data = Some (case find (bears i) (most_recent 100 (parsed_messages ins)) of
                                         None \<Rightarrow> last (most_recent 100 (parsed_messages ins))
                                       | Some r \<Rightarrow> r),
                          response_sequence_id = None\<rparr>))
       \<and> fst (publishCommand True cmd True s (pre @ map Inbound ins @ ResponseTimeout # rest))
             = Some (Inl (commandResponseTimeout 30000))"
proof -
  let ?s1 = "s\<lparr>messageBuffer := []\<rparr>"
  have clr: "messageBuffer ?s1 = []" by simp
  have run: "publishCommand True cmd True s evs = await_response (Some i) ?s1 evs" for evs
    using assms(1) by (simp add: publishCommand_def)
  have step: "\<exists>s'. messageBuffer s' = [] \<and>
           await_response (Some i) ?s1 (pre @ map Inbound ins @ evs)
             = await_response (Some i) (receive_all s' ins) evs" for evs
    using await_quiet [OF clr assms(3), of "Some i" "map Inbound ins @ evs"]
    by (auto simp: await_inbounds)
  have timeout: "fst (publishCommand True cmd True s (pre @ map Inbound ins @ ResponseTimeout # rest))
             = Some (Inl (commandResponseTimeout 30000))"
    using step [of "ResponseTimeout # rest"] by (auto simp: run MQTT_RESPONSE_def)
  have resolve: "fst (publishCommand True cmd True s (pre @ map Inbound ins @ PollTick # rest))
             = Some (Inr \<lparr>success = True,
                          message = ''Command executed and response received'',
                          data = Some (case find (bears i) (most_recent 100 (parsed_messages ins)) of
                                         None \<Rightarrow> last (most_recent 100 (parsed_messages ins))
                                       | Some r \<Rightarrow> r),
                          response_sequence_id = None\<rparr>)"
    if ne: "parsed_messages ins \<noteq> []"
  proof -
    from step [of "PollTick # rest"] obtain s' where
      s': "messageBuffer s' = []"
      and eq: "await_response (Some i) ?s1 (pre @ map Inbound ins @ PollTick # rest)
             = await_response (Some i) (receive_all s' ins) (PollTick # rest)"
      by blast
    have buf: "messageBuffer (receive_all s' ins) = most_recent MAX_MESSAGE_BUFFER (parsed_messages ins)"
      using s' by (rule receive_all_cleared)
    have "most_recent MAX_MESSAGE_BUFFER (parsed_messages ins) \<noteq> []"
      using ne by (rule most_recent_nonempty)
    from poll_nonempty [OF this assms(2)] buf
    show ?thesis
      unfolding MAX_MESSAGE_BUFFER_def by (simp add: run eq)
  qed
  from timeout resolve show ?thesis by blast
qed

theorem publishCommand_first_poll_witness:
  "commandSeqId (fst (pausePrint new_encoder)) = Some ''0''
   \<and> list_all quiet [PollTick, Inbound (Malformed ''Unexpected token'')]
   \<and> parsed_messages [Parsed (status_report ''idle''), Parsed (print_echo ''0'' ''pause'')] \<noteq> []
   \<and> fst (publishCommand True (fst (pausePrint new_encoder)) True new_session
        ([PollTick, Inbound (Malformed ''Unexpected token'')]
         @ map Inbound [Parsed (status_report ''idle''), Parsed (print_echo ''0'' ''pause'')]
         @ PollTick # []))
       = Some (Inr \<lparr>success = True,
                    message = ''Command executed and response received'',
                    data = Some (print_echo ''0'' ''pause''),
                    response_sequence_id = None\<rparr>)
   \<and> fst (publishCommand True (fst (pausePrint new_encoder)) True new_session
        ([PollTick, Inbound (Malformed ''Unexpected token'')]
         @ map Inbound [Parsed (status_report ''idle''), Parsed (print_echo ''0'' ''pause'')]
         @ ResponseTimeout # []))
       = Some (Inl (commandResponseTimeout 30000))"
proof -
  have h1: "commandSeqId (fst (pausePrint new_encoder)) = Some ''0''" by code_simp
  have h2: "''0'' \<noteq> []" by simp
  have h3: "list_all quiet [PollTick, Inbound (Malformed ''Unexpected token'')]" by simp
  have h4: "parsed_messages [Parsed (status_report ''idle''), Parsed (print_echo ''0'' ''pause'')] \<noteq> []"
    by simp
  have v: "(case find (bears ''0'') (most_recent 100
              (parsed_messages [Parsed (status_report ''idle''), Parsed (print_echo ''0'' ''pause'')])) of
             None \<Rightarrow> last (most_recent 100
              (parsed_messages [Parsed (status_report ''idle''), Parsed (print_echo ''0'' ''pause'')]))
           | Some r \<Rightarrow> r) = print_echo ''0'' ''pause''"
    by code_simp
  note t = publishCommand_first_poll [OF h1 h2 h3,
      where ins = "[Parsed (status_report ''idle''), Parsed (print_echo ''0'' ''pause'')]"
        and s = new_session and rest = "[]"]
  from t h4 have
    a: "fst (publishCommand True (fst (pausePrint new_encoder)) True new_session
        ([PollTick, Inbound (Malformed ''Unexpected token'')]
         @ map Inbound [Parsed (status_report ''idle''), Parsed (print_echo ''0'' ''pause'')]
         @ PollTick # []))
       = Some (Inr \<lparr>success = True,
                    message = ''Command executed and response received'',
                    data = Some (print_echo ''0'' ''pause''),
                    response_sequence_id = None\<rparr>)"
    unfolding v by blast
  from t have
    b: "fst (publishCommand True (fst (pausePrint new_encoder)) True new_session
        ([PollTick, Inbound (Malformed ''Unexpected token'')]
         @ map Inbound [Parsed (status_report ''idle''), Parsed (print_echo ''0'' ''pause'')]
         @ ResponseTimeout # []))
       = Some (Inl (commandResponseTimeout 30000))"
    by blast
  from h1 h3 h4 a b show ?thesis by blast
qed

text \<open>
  The claim as first stated promises the response that bears the identifier whenever it
  arrives before the timeout. The wait ends at the first tick that finds any message: a
  report without identifier that is buffered at that tick is returned, and the echo of
  the command that arrives after it is never looked at.
\<close>

theorem late_response_not_awaited:
  "commandSeqId (fst (pausePrint new_encoder)) = Some ''0''
   \<and> bears ''0'' (print_echo ''0'' ''pause'')
   \<and> \<not> bears ''0'' (status_report ''idle'')
   \<and> fst (publishCommand True (fst (pausePrint new_encoder)) True new_session
        [Inbound (Parsed (status_report ''idle'')), PollTick,
         Inbound (Parsed (print_echo ''0'' ''pause'')), PollTick, ResponseTimeout])
       = Some (Inr \<lparr>success = True,
                    message = ''Command executed and response received'',
                    data = Some (status_report ''idle''),
                    response_sequence_id = None\<rparr>)"
  by code_simp

lemma fire_and_forget:
  "fst (publishCommand True (fst (pausePrint new_encoder)) False new_session evs)
     = Some (Inr \<lparr>success = True, message = ''Command sent successfully'',
                  data = None, response_sequence_id = Some ''0''\<rparr>)"
  by (simp add: publishCommand_def pausePrint_def print_command_def getNextSequenceId_def
        new_encoder_def body_def)

end
